theory Spec2Isabelle
  imports Main
begin

section \<open>The cookie-consent widget of script.js\<close>

text \<open>
  The second half of \<^verbatim>\<open>src/script.js\<close> is a cookie-consent widget: a dual store
  (\<^verbatim>\<open>CookieUtils\<close>: \<^verbatim>\<open>document.cookie\<close> first, \<^verbatim>\<open>localStorage\<close> as backup), the
  consent functions (\<^verbatim>\<open>getConsent\<close>, \<^verbatim>\<open>saveConsent\<close>, \<^verbatim>\<open>hasConsent\<close>,
  \<^verbatim>\<open>isCategoryAllowed\<close>), the broadcaster \<^verbatim>\<open>loadScripts\<close> and the click handlers.
  Each function is embedded below under its own name, as a state transformer over the
  browser state it touches. A JavaScript exception is a value: every function returns
  either \<open>Inl (e, s)\<close> (the exception \<open>e\<close> escaped, leaving state \<open>s\<close>) or
  \<open>Inr (v, s)\<close> (it returned \<open>v\<close>).
\<close>

subsection \<open>JavaScript values\<close>

text \<open>
  The values that can pass through \<^verbatim>\<open>JSON.stringify\<close> and \<^verbatim>\<open>JSON.parse\<close>, and
  \<^verbatim>\<open>undefined\<close>. Numbers are restricted to integers. An object is the list of its own
  properties; reading a property takes the first binding of the key.
\<close>

datatype jsval =
    JUndefined
  | JNull
  | JBool bool
  | JNum int
  | JStr string
  | JArr "jsval list"
  | JObj "(string \<times> jsval) list"

datatype exn = TypeError | SyntaxError | SecurityError | QuotaExceededError

text \<open>Truthiness, as \<^verbatim>\<open>if (v)\<close>, \<^verbatim>\<open>!v\<close> and \<^verbatim>\<open>v || w\<close> test it.\<close>

fun truthy :: "jsval \<Rightarrow> bool" where
  "truthy JUndefined = False"
| "truthy JNull = False"
| "truthy (JBool b) = b"
| "truthy (JNum n) = (n \<noteq> 0)"
| "truthy (JStr s) = (s \<noteq> [])"
| "truthy (JArr xs) = True"
| "truthy (JObj fs) = True"

definition js_or :: "jsval \<Rightarrow> jsval \<Rightarrow> jsval" where
  "js_or a b = (if truthy a then a else b)"

text \<open>\<^verbatim>\<open>typeof v === 'object'\<close>: objects, arrays and \<^verbatim>\<open>null\<close>.\<close>

fun is_object :: "jsval \<Rightarrow> bool" where
  "is_object JNull = True"
| "is_object (JArr xs) = True"
| "is_object (JObj fs) = True"
| "is_object v = False"

text \<open>
  The property read \<^verbatim>\<open>v.k\<close> (or \<^verbatim>\<open>v[k]\<close>): a TypeError on \<^verbatim>\<open>null\<close> and
  \<^verbatim>\<open>undefined\<close>, \<^verbatim>\<open>undefined\<close> for a key the value has not. Inherited properties
  (\<^verbatim>\<open>length\<close>, \<^verbatim>\<open>toString\<close>, ...) are left out: the widget reads only the five fields
  of a consent record, and compares a category's value with \<^verbatim>\<open>true\<close>.
\<close>

fun get_prop :: "jsval \<Rightarrow> string \<Rightarrow> exn + jsval" where
  "get_prop JUndefined k = Inl TypeError"
| "get_prop JNull k = Inl TypeError"
| "get_prop (JObj fs) k = Inr (case map_of fs k of None \<Rightarrow> JUndefined | Some v \<Rightarrow> v)"
| "get_prop v k = Inr JUndefined"

subsection \<open>Serialised text\<close>

text \<open>
  What a store holds is text. \<open>Json v\<close> is the text \<^verbatim>\<open>JSON.stringify\<close> gives for the
  value \<open>v\<close> (in a cookie, under \<^verbatim>\<open>encodeURIComponent\<close>); \<open>Malformed t\<close> is a text \<open>t\<close>
  that \<^verbatim>\<open>decodeURIComponent\<close> or \<^verbatim>\<open>JSON.parse\<close> rejects. \<open>json_norm v\<close> is the value
  that comes back from the text of \<open>v\<close>: \<^verbatim>\<open>JSON.stringify\<close> drops the properties that
  are \<^verbatim>\<open>undefined\<close> and writes \<^verbatim>\<open>null\<close> for an \<^verbatim>\<open>undefined\<close> array element.
\<close>

datatype stored_text = Json jsval | Malformed string

fun json_norm :: "jsval \<Rightarrow> jsval" where
  "json_norm (JArr xs) = JArr (map (\<lambda>x. if x = JUndefined then JNull else json_norm x) xs)"
| "json_norm (JObj fs) =
     JObj (filter (\<lambda>(k, v). v \<noteq> JUndefined) (map (\<lambda>(k, v). (k, json_norm v)) fs))"
| "json_norm v = v"

fun JSON_stringify :: "jsval \<Rightarrow> stored_text" where
  "JSON_stringify JUndefined = Malformed ''undefined''"
| "JSON_stringify v = Json (json_norm v)"

fun JSON_parse :: "stored_text \<Rightarrow> exn + jsval" where
  "JSON_parse (Json v) = Inr v"
| "JSON_parse (Malformed t) = Inl SyntaxError"

text \<open>\<^verbatim>\<open>if (stored)\<close> on what \<^verbatim>\<open>localStorage.getItem\<close> gave: \<^verbatim>\<open>null\<close> and the empty
  text are falsy.\<close>

fun text_truthy :: "stored_text option \<Rightarrow> bool" where
  "text_truthy None = False"
| "text_truthy (Some (Json v)) = True"
| "text_truthy (Some (Malformed t)) = (t \<noteq> [])"

subsection \<open>The browser state\<close>

text \<open>
  \<open>cookies\<close> is the cookie jar: the cookies visible to the page, in the order
  \<^verbatim>\<open>document.cookie\<close> lists them. A browser keys a cookie by its name, its domain and its
  path; \<open>cookie_domain\<close> is \<open>None\<close> for a host-only cookie (one set with no \<^verbatim>\<open>Domain\<close>
  attribute, as the widget sets its own). \<open>cookie_mode\<close> is how \<^verbatim>\<open>document.cookie\<close>
  behaves: \<open>Stores\<close>, it can be read and an assignment takes effect; \<open>Ignores\<close>, it
  can be read and an assignment is dropped silently (cookies blocked); \<open>Raises\<close>, every
  access, a read as well as an assignment, throws a SecurityError (a sandboxed document).
  \<open>storage\<close> is \<^verbatim>\<open>localStorage\<close>; each of its three operations may throw (a quota, a
  privacy mode). \<open>now\<close> is the text \<^verbatim>\<open>new Date().toISOString()\<close> gives. \<open>console\<close>
  collects the messages of \<^verbatim>\<open>console.warn\<close> and \<^verbatim>\<open>console.error\<close>, \<open>dispatched\<close>
  the events of \<^verbatim>\<open>window.dispatchEvent\<close> (name and detail), \<open>timers\<close> the pending
  callbacks of \<^verbatim>\<open>setTimeout\<close> with their delays. \<open>banners\<close> and \<open>modals\<close> are the
  elements \<^verbatim>\<open>#cookie-banner\<close> and \<^verbatim>\<open>#cookie-modal\<close> attached to the document, in document
  order.
\<close>

datatype cookie_access = Stores | Ignores | Raises

record cookie =
  cookie_name :: string
  cookie_domain :: "string option"
  cookie_path :: string
  cookie_text :: stored_text

datatype task =
    BannerVisible nat
  | BannerRemove nat
  | ModalRemove nat
  | RetryAcceptAll
  | RetryReject
  | RetrySave bool bool

record banner_el =
  banner_id :: nat
  banner_visible :: bool

record modal_el =
  modal_id :: nat
  modal_visible :: bool
  aria_hidden :: bool
  analytics_checked :: bool
  marketing_checked :: bool

record browser =
  cookies :: "cookie list"
  cookie_mode :: cookie_access
  storage :: "string \<Rightarrow> stored_text option"
  setItem_raises :: bool
  getItem_raises :: bool
  removeItem_raises :: bool
  now :: string
  console :: "string list"
  dispatched :: "(string \<times> jsval) list"
  timers :: "(nat \<times> task) list"
  banners :: "banner_el list"
  modals :: "modal_el list"
  next_id :: nat

type_synonym 'a js = "browser \<Rightarrow> (exn \<times> browser) + ('a \<times> browser)"

definition ret :: "'a \<Rightarrow> 'a js" where
  "ret x s = Inr (x, s)"

definition bnd :: "'a js \<Rightarrow> ('a \<Rightarrow> 'b js) \<Rightarrow> 'b js" where
  "bnd m f s = (case m s of Inl z \<Rightarrow> Inl z | Inr (x, s') \<Rightarrow> f x s')"

definition try_catch :: "'a js \<Rightarrow> (exn \<Rightarrow> 'a js) \<Rightarrow> 'a js" where
  "try_catch m h s = (case m s of Inl (e, s') \<Rightarrow> h e s' | Inr r \<Rightarrow> Inr r)"

definition of_result :: "exn + 'a \<Rightarrow> 'a js" where
  "of_result r s = (case r of Inl e \<Rightarrow> Inl (e, s) | Inr x \<Rightarrow> Inr (x, s))"

definition js_if :: "bool \<Rightarrow> unit js \<Rightarrow> unit js" where
  "js_if b m = (if b then m else ret ())"

subsection \<open>The platform operations the widget calls\<close>

text \<open>
  The widget assigns \<^verbatim>\<open>name=value;expires=...;path=/;SameSite=Lax\<close>: a host-only cookie
  on the path \<^verbatim>\<open>/\<close>. \<open>own_cookie name c\<close> says that \<open>c\<close> is the cookie of that key.
  With an expiry date in the future the assignment replaces the value of that cookie
  where it stands in the jar, or adds the cookie at the end of the jar (the path \<^verbatim>\<open>/\<close>
  is the shortest, and \<^verbatim>\<open>document.cookie\<close> lists longer paths first); with a date that
  is not in the future it deletes that cookie. A cookie of the same name on another path
  or domain is another cookie and stays as it is.
\<close>

definition own_cookie :: "string \<Rightarrow> cookie \<Rightarrow> bool" where
  "own_cookie name c =
     (cookie_name c = name \<and> cookie_domain c = None \<and> cookie_path c = ''/'')"

fun jar_put :: "string \<Rightarrow> stored_text \<Rightarrow> cookie list \<Rightarrow> cookie list" where
  "jar_put name v [] =
     [\<lparr>cookie_name = name, cookie_domain = None, cookie_path = ''/'', cookie_text = v\<rparr>]"
| "jar_put name v (c # cs) =
     (if own_cookie name c then c\<lparr>cookie_text := v\<rparr> # cs else c # jar_put name v cs)"

definition jar_delete :: "string \<Rightarrow> cookie list \<Rightarrow> cookie list" where
  "jar_delete name cs = filter (\<lambda>c. \<not> own_cookie name c) cs"

text \<open>The read of \<^verbatim>\<open>document.cookie\<close>.\<close>

definition document_cookie_read :: "cookie list js" where
  "document_cookie_read s =
     (if cookie_mode s = Raises then Inl (SecurityError, s) else Inr (cookies s, s))"

text \<open>The assignment to \<^verbatim>\<open>document.cookie\<close>; \<open>future\<close> says whether the expiry date it
  carries is in the future.\<close>

definition document_cookie_assign :: "string \<Rightarrow> stored_text \<Rightarrow> bool \<Rightarrow> unit js" where
  "document_cookie_assign name v future s =
     (case cookie_mode s of
        Stores \<Rightarrow>
          Inr ((), s\<lparr>cookies := (if future then jar_put name v (cookies s)
                                  else jar_delete name (cookies s))\<rparr>)
      | Ignores \<Rightarrow> Inr ((), s)
      | Raises \<Rightarrow> Inl (SecurityError, s))"

definition localStorage_setItem :: "string \<Rightarrow> stored_text \<Rightarrow> unit js" where
  "localStorage_setItem name v s =
     (if setItem_raises s then Inl (QuotaExceededError, s)
      else Inr ((), s\<lparr>storage := (storage s)(name \<mapsto> v)\<rparr>))"

definition localStorage_getItem :: "string \<Rightarrow> stored_text option js" where
  "localStorage_getItem name s =
     (if getItem_raises s then Inl (SecurityError, s) else Inr (storage s name, s))"

definition localStorage_removeItem :: "string \<Rightarrow> unit js" where
  "localStorage_removeItem name s =
     (if removeItem_raises s then Inl (SecurityError, s)
      else Inr ((), s\<lparr>storage := (storage s)(name := None)\<rparr>))"

definition console_log :: "string \<Rightarrow> unit js" where
  "console_log msg s = Inr ((), s\<lparr>console := console s @ [msg]\<rparr>)"

definition dispatchEvent :: "string \<Rightarrow> jsval \<Rightarrow> unit js" where
  "dispatchEvent name detail s = Inr ((), s\<lparr>dispatched := dispatched s @ [(name, detail)]\<rparr>)"

definition setTimeout :: "task \<Rightarrow> nat \<Rightarrow> unit js" where
  "setTimeout t delay s = Inr ((), s\<lparr>timers := timers s @ [(delay, t)]\<rparr>)"

definition toISOString_now :: "jsval js" where
  "toISOString_now s = Inr (JStr (now s), s)"

subsection \<open>Constants\<close>

definition CONSENT_VERSION :: string where
  "CONSENT_VERSION = ''1.0''"

definition CONSENT_COOKIE_NAME :: string where
  "CONSENT_COOKIE_NAME = ''cookie_consent''"

definition CONSENT_EXPIRY_DAYS :: nat where
  "CONSENT_EXPIRY_DAYS = 365"

subsection \<open>CookieUtils\<close>

text \<open>
  \<^verbatim>\<open>CookieUtils.set\<close>: the expiry date is \<open>days\<close> days from now, in the future exactly
  when \<open>days\<close> is positive (\<open>days\<close> is a whole number of days, not negative). The
  cookie is written in one \<^verbatim>\<open>try\<close>, the backup in another; each \<^verbatim>\<open>catch\<close> warns on the
  console.
\<close>

definition CookieUtils_set :: "string \<Rightarrow> jsval \<Rightarrow> nat \<Rightarrow> unit js" where
  "CookieUtils_set name v days =
     bnd (try_catch (document_cookie_assign name (JSON_stringify v) (0 < days))
            (\<lambda>e. console_log ''Error setting cookie:''))
       (\<lambda>_. try_catch (localStorage_setItem name (JSON_stringify v))
            (\<lambda>e. console_log ''Error setting localStorage:''))"

text \<open>
  \<^verbatim>\<open>CookieUtils.get\<close> reads \<^verbatim>\<open>document.cookie\<close> outside every \<^verbatim>\<open>try\<close>, then loops
  over its entries: an entry \<^verbatim>\<open>name=value\<close> of that name is parsed; when it parses, the
  value is copied to \<^verbatim>\<open>localStorage\<close> (in a \<^verbatim>\<open>try\<close> with an empty \<^verbatim>\<open>catch\<close>) and
  returned; when it does not, the \<^verbatim>\<open>catch\<close> warns and the loop goes on. \<open>Some v\<close> is a
  \<^verbatim>\<open>return v\<close> out of the loop, \<open>None\<close> is the loop running to its end.
\<close>

fun cookie_loop :: "string \<Rightarrow> cookie list \<Rightarrow> jsval option js" where
  "cookie_loop name [] = ret None"
| "cookie_loop name (c # ca) =
     (if cookie_name c = name then
        bnd (try_catch
               (bnd (of_result (JSON_parse (cookie_text c))) (\<lambda>parsed.
                  bnd (try_catch (localStorage_setItem name (JSON_stringify parsed)) (\<lambda>e. ret ()))
                    (\<lambda>_. ret (Some parsed))))
               (\<lambda>e. bnd (console_log ''Error parsing cookie:'') (\<lambda>_. ret None)))
          (\<lambda>r. case r of Some parsed \<Rightarrow> ret (Some parsed) | None \<Rightarrow> cookie_loop name ca)
      else cookie_loop name ca)"

definition CookieUtils_get :: "string \<Rightarrow> jsval js" where
  "CookieUtils_get name =
     bnd document_cookie_read (\<lambda>ca.
     bnd (cookie_loop name ca) (\<lambda>r.
       case r of
         Some parsed \<Rightarrow> ret parsed
       | None \<Rightarrow>
           bnd (try_catch
                  (bnd (localStorage_getItem name) (\<lambda>stored.
                     if text_truthy stored then
                       (case stored of
                          Some t \<Rightarrow> bnd (of_result (JSON_parse t)) (\<lambda>v. ret (Some v))
                        | None \<Rightarrow> ret None)
                     else ret None))
                  (\<lambda>e. bnd (console_log ''Error reading localStorage:'') (\<lambda>_. ret None)))
             (\<lambda>r2. case r2 of Some v \<Rightarrow> ret v | None \<Rightarrow> ret JNull)))"

text \<open>\<^verbatim>\<open>CookieUtils.remove\<close> assigns the cookie with the date 1 January 1970.\<close>

definition CookieUtils_remove :: "string \<Rightarrow> unit js" where
  "CookieUtils_remove name =
     bnd (try_catch (document_cookie_assign name (Malformed []) False) (\<lambda>e. ret ()))
       (\<lambda>_. try_catch (localStorage_removeItem name) (\<lambda>e. ret ()))"

subsection \<open>The consent functions\<close>

definition getConsent :: "jsval js" where
  "getConsent =
     bnd (try_catch
            (bnd (CookieUtils_get CONSENT_COOKIE_NAME) (\<lambda>stored.
               if truthy stored \<and> is_object stored then
                 bnd (of_result (get_prop stored ''version'')) (\<lambda>version.
                   if version = JStr CONSENT_VERSION \<or> \<not> truthy version then
                     bnd (of_result (get_prop stored ''necessary'')) (\<lambda>necessary.
                     bnd (of_result (get_prop stored ''analytics'')) (\<lambda>analytics.
                     bnd (of_result (get_prop stored ''marketing'')) (\<lambda>marketing.
                       if necessary \<noteq> JUndefined \<and> analytics \<noteq> JUndefined
                          \<and> marketing \<noteq> JUndefined
                       then ret (Some stored) else ret None)))
                   else ret None)
               else ret None))
            (\<lambda>e. bnd (console_log ''Error getting consent:'') (\<lambda>_. ret None)))
       (\<lambda>r. case r of Some stored \<Rightarrow> ret stored | None \<Rightarrow> ret JNull)"

definition saveConsent :: "jsval \<Rightarrow> jsval js" where
  "saveConsent consent =
     bnd toISOString_now (\<lambda>timestamp.
     bnd (of_result (get_prop consent ''analytics'')) (\<lambda>analytics.
     bnd (of_result (get_prop consent ''marketing'')) (\<lambda>marketing.
       let consentData = JObj
             [(''version'', JStr CONSENT_VERSION),
              (''timestamp'', timestamp),
              (''necessary'', JBool True),
              (''analytics'', js_or analytics (JBool False)),
              (''marketing'', js_or marketing (JBool False))]
       in
       bnd (CookieUtils_set CONSENT_COOKIE_NAME consentData CONSENT_EXPIRY_DAYS) (\<lambda>_.
       bnd (CookieUtils_get CONSENT_COOKIE_NAME) (\<lambda>saved.
       bnd (if truthy saved then
              bnd (of_result (get_prop saved ''version'')) (\<lambda>version.
                js_if (version \<noteq> JStr CONSENT_VERSION)
                  (console_log ''Cookie consent may not have been saved correctly''))
            else console_log ''Cookie consent may not have been saved correctly'')
         (\<lambda>_. ret consentData))))))"

text \<open>
  \<^verbatim>\<open>hasConsent\<close> returns the value of
  \<^verbatim>\<open>consent !== null && typeof consent === 'object' && consent.timestamp\<close>: \<^verbatim>\<open>false\<close> when
  one of the two tests fails, the timestamp itself otherwise. Its callers test the
  truthiness of what it returns.
\<close>

definition hasConsent :: "jsval js" where
  "hasConsent =
     bnd getConsent (\<lambda>consent.
       if consent \<noteq> JNull then
         (if is_object consent then of_result (get_prop consent ''timestamp'')
          else ret (JBool False))
       else ret (JBool False))"

definition isCategoryAllowed :: "string \<Rightarrow> bool js" where
  "isCategoryAllowed category =
     bnd getConsent (\<lambda>consent.
       if \<not> truthy consent then ret False
       else if category = ''necessary'' then ret True
       else bnd (of_result (get_prop consent category)) (\<lambda>v. ret (v = JBool True)))"

definition loadScripts :: "unit js" where
  "loadScripts =
     bnd getConsent (\<lambda>consent.
       if \<not> truthy consent then ret ()
       else
         bnd (of_result (get_prop consent ''analytics'')) (\<lambda>analytics.
         bnd (js_if (truthy analytics) (dispatchEvent ''cookieConsent:analytics'' consent)) (\<lambda>_.
         bnd (of_result (get_prop consent ''marketing'')) (\<lambda>marketing.
         bnd (js_if (truthy marketing) (dispatchEvent ''cookieConsent:marketing'' consent)) (\<lambda>_.
         dispatchEvent ''cookieConsent:necessary'' consent)))))"

subsection \<open>Banner, modal and click handlers\<close>

text \<open>
  \<^verbatim>\<open>document.getElementById\<close> finds the first element of that id. \<^verbatim>\<open>hideBanner\<close> and
  \<^verbatim>\<open>hideModal\<close> do nothing when there is none; otherwise they drop the
  \<^verbatim>\<open>-visible\<close> class and remove that element 300 ms later.
\<close>

definition hideBanner :: "unit js" where
  "hideBanner s =
     (case banners s of
        [] \<Rightarrow> Inr ((), s)
      | b # bs \<Rightarrow>
          setTimeout (BannerRemove (banner_id b)) 300
            (s\<lparr>banners := b\<lparr>banner_visible := False\<rparr> # bs\<rparr>))"

definition hideModal :: "unit js" where
  "hideModal s =
     (case modals s of
        [] \<Rightarrow> Inr ((), s)
      | m # ms \<Rightarrow>
          setTimeout (ModalRemove (modal_id m)) 300
            (s\<lparr>modals := m\<lparr>modal_visible := False, aria_hidden := True\<rparr> # ms\<rparr>))"

definition showBanner :: "unit js" where
  "showBanner =
     bnd hasConsent (\<lambda>h.
       if truthy h then ret ()
       else (\<lambda>s.
         setTimeout (BannerVisible (next_id s)) 100
           (s\<lparr>banners := banners s @ [\<lparr>banner_id = next_id s, banner_visible = False\<rparr>],
              next_id := Suc (next_id s)\<rparr>)))"

text \<open>
  The three handlers save, then test \<^verbatim>\<open>hasConsent()\<close>: when it holds they close the
  widget and broadcast; otherwise they log an error and schedule one more attempt, the
  callbacks \<open>RetryAcceptAll\<close>, \<open>RetryReject\<close> and \<open>RetrySave\<close> below, 100 ms later.
\<close>

definition consent_choice :: "bool \<Rightarrow> bool \<Rightarrow> jsval" where
  "consent_choice analytics marketing =
     JObj [(''analytics'', JBool analytics), (''marketing'', JBool marketing)]"

definition handleAcceptAll :: "unit js" where
  "handleAcceptAll =
     bnd (saveConsent (consent_choice True True)) (\<lambda>consent.
     bnd hasConsent (\<lambda>h.
       if truthy h then bnd hideBanner (\<lambda>_. bnd hideModal (\<lambda>_. loadScripts))
       else bnd (console_log ''Failed to save consent'') (\<lambda>_. setTimeout RetryAcceptAll 100)))"

definition handleReject :: "unit js" where
  "handleReject =
     bnd (saveConsent (consent_choice False False)) (\<lambda>consent.
     bnd hasConsent (\<lambda>h.
       if truthy h then bnd hideBanner (\<lambda>_. bnd hideModal (\<lambda>_. loadScripts))
       else bnd (console_log ''Failed to save consent'') (\<lambda>_. setTimeout RetryReject 100)))"

text \<open>\<^verbatim>\<open>document.getElementById('cookie-analytics').checked\<close>: a TypeError when no modal
  is attached.\<close>

definition checked :: "(modal_el \<Rightarrow> bool) \<Rightarrow> bool js" where
  "checked box s = (case modals s of [] \<Rightarrow> Inl (TypeError, s) | m # ms \<Rightarrow> Inr (box m, s))"

definition handleSave :: "unit js" where
  "handleSave =
     bnd (checked analytics_checked) (\<lambda>analytics.
     bnd (checked marketing_checked) (\<lambda>marketing.
     bnd (saveConsent (consent_choice analytics marketing)) (\<lambda>consent.
     bnd hasConsent (\<lambda>h.
       if truthy h then bnd hideModal (\<lambda>_. loadScripts)
       else bnd (console_log ''Failed to save consent'')
              (\<lambda>_. setTimeout (RetrySave analytics marketing) 100)))))"

text \<open>What a pending callback does when its timer fires.\<close>

fun run_task :: "task \<Rightarrow> unit js" where
  "run_task (BannerVisible i) =
     (\<lambda>s. Inr ((), s\<lparr>banners :=
        map (\<lambda>b. if banner_id b = i then b\<lparr>banner_visible := True\<rparr> else b) (banners s)\<rparr>))"
| "run_task (BannerRemove i) =
     (\<lambda>s. Inr ((), s\<lparr>banners := filter (\<lambda>b. banner_id b \<noteq> i) (banners s)\<rparr>))"
| "run_task (ModalRemove i) =
     (\<lambda>s. Inr ((), s\<lparr>modals := filter (\<lambda>m. modal_id m \<noteq> i) (modals s)\<rparr>))"
| "run_task RetryAcceptAll =
     bnd (saveConsent (consent_choice True True)) (\<lambda>consent.
     bnd hasConsent (\<lambda>h.
       if truthy h then bnd hideBanner (\<lambda>_. bnd hideModal (\<lambda>_. loadScripts)) else ret ()))"
| "run_task RetryReject =
     bnd (saveConsent (consent_choice False False)) (\<lambda>consent.
     bnd hasConsent (\<lambda>h.
       if truthy h then bnd hideBanner (\<lambda>_. bnd hideModal (\<lambda>_. loadScripts)) else ret ()))"
| "run_task (RetrySave analytics marketing) =
     bnd (saveConsent (consent_choice analytics marketing)) (\<lambda>consent.
     bnd hasConsent (\<lambda>h.
       if truthy h then bnd hideModal (\<lambda>_. loadScripts) else ret ()))"

text \<open>\<^verbatim>\<open>window.CookieConsent.reset\<close>.\<close>

definition reset :: "unit js" where
  "reset = bnd (CookieUtils_remove CONSENT_COOKIE_NAME) (\<lambda>_. showBanner)"

section \<open>What the functions compute\<close>

text \<open>
  The definitions of this section are not in the source: they name what the source
  functions compute, and the lemmas after them prove that they do.

  \<open>cookie_hit name ca\<close> is the value of the first cookie of that name whose text
  parses, \<open>cookie_misses name ca\<close> the number of cookies of that name before it whose
  text does not.
\<close>

fun cookie_hit :: "string \<Rightarrow> cookie list \<Rightarrow> jsval option" where
  "cookie_hit name [] = None"
| "cookie_hit name (c # ca) =
     (if cookie_name c = name then
        (case cookie_text c of Json v \<Rightarrow> Some v | Malformed t \<Rightarrow> cookie_hit name ca)
      else cookie_hit name ca)"

fun cookie_misses :: "string \<Rightarrow> cookie list \<Rightarrow> nat" where
  "cookie_misses name [] = 0"
| "cookie_misses name (c # ca) =
     (if cookie_name c = name then
        (case cookie_text c of Json v \<Rightarrow> 0 | Malformed t \<Rightarrow> Suc (cookie_misses name ca))
      else cookie_misses name ca)"

text \<open>
  What a read gives where \<^verbatim>\<open>document.cookie\<close> can be read (\<open>cookie_mode\<close> is not
  \<open>Raises\<close>): \<open>read_value\<close> is the value returned and \<open>read_state\<close> the state left.
  The backup after a read is \<open>mirror\<close>: the cookie's value copied in, when there was one and
  \<^verbatim>\<open>setItem\<close> did not throw.\<close>

definition mirror :: "string \<Rightarrow> jsval option \<Rightarrow> browser \<Rightarrow> string \<Rightarrow> stored_text option" where
  "mirror name hit s =
     (case hit of
        Some v \<Rightarrow> if setItem_raises s then storage s else (storage s)(name \<mapsto> JSON_stringify v)
      | None \<Rightarrow> storage s)"

definition fallback_read :: "string \<Rightarrow> browser \<Rightarrow> jsval option" where
  "fallback_read name s =
     (if getItem_raises s then None
      else case storage s name of
             Some (Json v) \<Rightarrow> Some v
           | Some (Malformed t) \<Rightarrow> None
           | None \<Rightarrow> None)"

definition fallback_warns :: "string \<Rightarrow> browser \<Rightarrow> string list" where
  "fallback_warns name s =
     (if getItem_raises s then [''Error reading localStorage:'']
      else case storage s name of
             Some (Malformed t) \<Rightarrow> if t \<noteq> [] then [''Error reading localStorage:''] else []
           | Some (Json v) \<Rightarrow> []
           | None \<Rightarrow> [])"

definition read_value :: "string \<Rightarrow> browser \<Rightarrow> jsval" where
  "read_value name s =
     (case cookie_hit name (cookies s) of
        Some v \<Rightarrow> v
      | None \<Rightarrow> (case fallback_read name s of Some v \<Rightarrow> v | None \<Rightarrow> JNull))"

definition read_state :: "string \<Rightarrow> browser \<Rightarrow> browser" where
  "read_state name s =
     s\<lparr>storage := mirror name (cookie_hit name (cookies s)) s,
       console := console s @ replicate (cookie_misses name (cookies s)) ''Error parsing cookie:''
         @ (case cookie_hit name (cookies s) of Some v \<Rightarrow> [] | None \<Rightarrow> fallback_warns name s)\<rparr>"

text \<open>The states \<^verbatim>\<open>CookieUtils.set\<close> and \<^verbatim>\<open>CookieUtils.remove\<close> leave.\<close>

definition set_state :: "string \<Rightarrow> jsval \<Rightarrow> nat \<Rightarrow> browser \<Rightarrow> browser" where
  "set_state name v days s =
     s\<lparr>cookies := (if cookie_mode s = Stores
                   then (if 0 < days then jar_put name (JSON_stringify v) (cookies s)
                         else jar_delete name (cookies s))
                   else cookies s),
       storage := (if setItem_raises s then storage s else (storage s)(name \<mapsto> JSON_stringify v)),
       console := console s
         @ (if cookie_mode s = Raises then [''Error setting cookie:''] else [])
         @ (if setItem_raises s then [''Error setting localStorage:''] else [])\<rparr>"

definition remove_state :: "string \<Rightarrow> browser \<Rightarrow> browser" where
  "remove_state name s =
     s\<lparr>cookies := (if cookie_mode s = Stores then jar_delete name (cookies s) else cookies s),
       storage := (if removeItem_raises s then storage s else (storage s)(name := None))\<rparr>"

text \<open>\<open>fld v k\<close> is \<^verbatim>\<open>v.k\<close> where the read cannot throw.\<close>

definition fld :: "jsval \<Rightarrow> string \<Rightarrow> jsval" where
  "fld v k = (case get_prop v k of Inl e \<Rightarrow> JUndefined | Inr x \<Rightarrow> x)"

text \<open>The tests of \<^verbatim>\<open>getConsent\<close> on what it read.\<close>

definition passes_checks :: "jsval \<Rightarrow> bool" where
  "passes_checks stored =
     (truthy stored \<and> is_object stored
      \<and> (fld stored ''version'' = JStr CONSENT_VERSION \<or> \<not> truthy (fld stored ''version''))
      \<and> fld stored ''necessary'' \<noteq> JUndefined
      \<and> fld stored ''analytics'' \<noteq> JUndefined
      \<and> fld stored ''marketing'' \<noteq> JUndefined)"

text \<open>What \<^verbatim>\<open>getConsent\<close> returns and the state it leaves: where the read of
  \<^verbatim>\<open>document.cookie\<close> throws, its \<^verbatim>\<open>catch\<close> warns and it returns \<^verbatim>\<open>null\<close>.\<close>

definition consent_value :: "browser \<Rightarrow> jsval" where
  "consent_value s =
     (if cookie_mode s \<noteq> Raises \<and> passes_checks (read_value CONSENT_COOKIE_NAME s)
      then read_value CONSENT_COOKIE_NAME s else JNull)"

definition consent_state :: "browser \<Rightarrow> browser" where
  "consent_state s =
     (if cookie_mode s = Raises then s\<lparr>console := console s @ [''Error getting consent:'']\<rparr>
      else read_state CONSENT_COOKIE_NAME s)"

text \<open>The record \<^verbatim>\<open>saveConsent\<close> builds from the two category values it is given, and
  the state it leaves where \<^verbatim>\<open>document.cookie\<close> can be read.\<close>

definition consent_record :: "jsval \<Rightarrow> jsval \<Rightarrow> browser \<Rightarrow> jsval" where
  "consent_record analytics marketing s =
     JObj [(''version'', JStr CONSENT_VERSION),
           (''timestamp'', JStr (now s)),
           (''necessary'', JBool True),
           (''analytics'', js_or analytics (JBool False)),
           (''marketing'', js_or marketing (JBool False))]"

definition save_state :: "jsval \<Rightarrow> browser \<Rightarrow> browser" where
  "save_state consentData s =
     (let s1 = set_state CONSENT_COOKIE_NAME consentData CONSENT_EXPIRY_DAYS s;
          saved = read_value CONSENT_COOKIE_NAME s1;
          s2 = read_state CONSENT_COOKIE_NAME s1
      in if truthy saved \<and> fld saved ''version'' = JStr CONSENT_VERSION then s2
         else s2\<lparr>console := console s2 @ [''Cookie consent may not have been saved correctly'']\<rparr>)"

text \<open>The events \<^verbatim>\<open>loadScripts\<close> dispatches for a consent record, in their order.\<close>

definition broadcast :: "jsval \<Rightarrow> (string \<times> jsval) list" where
  "broadcast consent =
     (if truthy (fld consent ''analytics'') then [(''cookieConsent:analytics'', consent)] else [])
     @ (if truthy (fld consent ''marketing'') then [(''cookieConsent:marketing'', consent)] else [])
     @ [(''cookieConsent:necessary'', consent)]"

text \<open>The retries among the pending timers.\<close>

fun is_retry :: "task \<Rightarrow> bool" where
  "is_retry RetryAcceptAll = True"
| "is_retry RetryReject = True"
| "is_retry (RetrySave analytics marketing) = True"
| "is_retry t = False"

definition retries :: "browser \<Rightarrow> (nat \<times> task) list" where
  "retries s = filter (\<lambda>(delay, t). is_retry t) (timers s)"

section \<open>Concrete browser states\<close>

text \<open>A first visit: nothing stored, every store working.\<close>

definition fresh_browser :: browser where
  "fresh_browser =
     \<lparr>cookies = [], cookie_mode = Stores, storage = (\<lambda>k. None),
      setItem_raises = False, getItem_raises = False, removeItem_raises = False,
      now = ''2024-01-15T10:30:00.000Z'', console = [], dispatched = [], timers = [],
      banners = [], modals = [], next_id = 0\<rparr>"

text \<open>A host-only \<^verbatim>\<open>cookie_consent\<close> cookie on a path, holding the text of a value.\<close>

definition consent_cookie :: "string \<Rightarrow> jsval \<Rightarrow> cookie" where
  "consent_cookie path v =
     \<lparr>cookie_name = CONSENT_COOKIE_NAME, cookie_domain = None, cookie_path = path,
      cookie_text = Json v\<rparr>"

text \<open>A returning visitor whose cookie carries an empty version.\<close>

definition blank_version_record :: jsval where
  "blank_version_record =
     JObj [(''version'', JStr ''''),
           (''timestamp'', JStr ''2023-06-01T08:00:00.000Z''),
           (''necessary'', JBool True),
           (''analytics'', JBool True),
           (''marketing'', JBool True)]"

definition blank_version_browser :: browser where
  "blank_version_browser =
     fresh_browser\<lparr>cookies := [consent_cookie ''/'' blank_version_record]\<rparr>"

text \<open>The record of a visitor who rejected everything earlier, and the record of one who
  accepts everything now.\<close>

definition reject_record :: jsval where
  "reject_record =
     JObj [(''version'', JStr ''1.0''),
           (''timestamp'', JStr ''2023-06-01T08:00:00.000Z''),
           (''necessary'', JBool True),
           (''analytics'', JBool False),
           (''marketing'', JBool False)]"

definition accept_record :: jsval where
  "accept_record =
     JObj [(''version'', JStr ''1.0''),
           (''timestamp'', JStr ''2024-01-15T10:30:00.000Z''),
           (''necessary'', JBool True),
           (''analytics'', JBool True),
           (''marketing'', JBool True)]"

text \<open>A page under \<^verbatim>\<open>/shop\<close> of a site where a \<^verbatim>\<open>cookie_consent\<close> cookie with the
  rejection was set on the path \<^verbatim>\<open>/shop\<close>; every store works.\<close>

definition shadowed_browser :: browser where
  "shadowed_browser = fresh_browser\<lparr>cookies := [consent_cookie ''/shop'' reject_record]\<rparr>"



text \<open>A first visit to a document where every access to \<^verbatim>\<open>document.cookie\<close> throws, while
  \<^verbatim>\<open>localStorage\<close> works; the preferences modal is open with analytics ticked.\<close>

definition cookie_throwing_browser :: browser where
  "cookie_throwing_browser =
     fresh_browser\<lparr>cookie_mode := Raises,
       modals := [\<lparr>modal_id = 0, modal_visible = True, aria_hidden = False,
                   analytics_checked = True, marketing_checked = False\<rparr>],
       next_id := 1\<rparr>"

text \<open>A jar whose first \<^verbatim>\<open>cookie_consent\<close> entry is not JSON and whose second is.\<close>

definition mixed_jar_browser :: browser where
  "mixed_jar_browser =
     fresh_browser\<lparr>cookies :=
       [\<lparr>cookie_name = ''theme'', cookie_domain = None, cookie_path = ''/'',
         cookie_text = Malformed ''dark''\<rparr>,
        \<lparr>cookie_name = CONSENT_COOKIE_NAME, cookie_domain = None, cookie_path = ''/shop'',
         cookie_text = Malformed ''%7Bbroken''\<rparr>,
        consent_cookie ''/'' reject_record]\<rparr>"

text \<open>No cookie, and a backup that is not JSON; no cookie, and a backup that is the
  empty text.\<close>

definition broken_backup_browser :: browser where
  "broken_backup_browser =
     fresh_browser\<lparr>storage := (\<lambda>k. None)(CONSENT_COOKIE_NAME \<mapsto> Malformed ''{oops'')\<rparr>"

definition empty_backup_browser :: browser where
  "empty_backup_browser =
     fresh_browser\<lparr>storage := (\<lambda>k. None)(CONSENT_COOKIE_NAME \<mapsto> Malformed [])\<rparr>"

text \<open>A stored record whose analytics value is the number 1.\<close>

definition numeric_record :: jsval where
  "numeric_record =
     JObj [(''version'', JStr ''1.0''),
           (''timestamp'', JStr ''2023-06-01T08:00:00.000Z''),
           (''necessary'', JBool True),
           (''analytics'', JNum 1),
           (''marketing'', JBool False)]"

definition numeric_browser :: browser where
  "numeric_browser = fresh_browser\<lparr>cookies := [consent_cookie ''/'' numeric_record]\<rparr>"

text \<open>A visitor who accepted everything.\<close>

definition accepted_browser :: browser where
  "accepted_browser = fresh_browser\<lparr>cookies := [consent_cookie ''/'' accept_record]\<rparr>"

text \<open>The preferences modal is open with analytics ticked, and neither store takes a
  write: assignments to \<^verbatim>\<open>document.cookie\<close> are dropped and \<^verbatim>\<open>setItem\<close> throws.\<close>

definition blocked_browser :: browser where
  "blocked_browser =
     fresh_browser\<lparr>cookie_mode := Ignores, setItem_raises := True,
       modals := [\<lparr>modal_id = 0, modal_visible = True, aria_hidden = False,
                   analytics_checked = True, marketing_checked = False\<rparr>],
       next_id := 1\<rparr>"

text \<open>The same, with a record in \<^verbatim>\<open>localStorage\<close> that an earlier release wrote without
  a version.\<close>

definition legacy_record :: jsval where
  "legacy_record =
     JObj [(''timestamp'', JStr ''2022-03-01T09:00:00.000Z''),
           (''necessary'', JBool True),
           (''analytics'', JBool False),
           (''marketing'', JBool False)]"

definition legacy_browser :: browser where
  "legacy_browser =
     blocked_browser\<lparr>storage := (\<lambda>k. None)(CONSENT_COOKIE_NAME \<mapsto> Json legacy_record)\<rparr>"

section \<open>Lemmas on the store\<close>

lemma cookie_loop_eq:
  "cookie_loop name ca s =
     Inr (cookie_hit name ca,
          s\<lparr>storage := mirror name (cookie_hit name ca) s,
            console := console s @ replicate (cookie_misses name ca) ''Error parsing cookie:''\<rparr>)"
proof (induction ca arbitrary: s)
  case Nil
  show ?case by (simp add: ret_def mirror_def)
next
  case (Cons c ca)
  show ?case
  proof (cases "cookie_name c = name")
    case False
    then show ?thesis using Cons.IH [of s] by simp
  next
    case True
    show ?thesis
    proof (cases "cookie_text c")
      case (Json v)
      then show ?thesis using True
        by (simp add: bnd_def try_catch_def of_result_def ret_def localStorage_setItem_def mirror_def)
    next
      case (Malformed t)
      then show ?thesis
        using True Cons.IH [of "s\<lparr>console := console s @ [''Error parsing cookie:'']\<rparr>"]
        by (simp add: bnd_def try_catch_def of_result_def ret_def console_log_def mirror_def
            replicate_append_same split: option.splits)
    qed
  qed
qed

lemma CookieUtils_get_raises:
  "cookie_mode s = Raises \<Longrightarrow> CookieUtils_get name s = Inl (SecurityError, s)"
  by (simp add: CookieUtils_get_def bnd_def document_cookie_read_def)

lemma CookieUtils_get_eq:
  assumes "cookie_mode s \<noteq> Raises"
  shows "CookieUtils_get name s = Inr (read_value name s, read_state name s)"
proof (cases "cookie_hit name (cookies s)")
  case (Some v)
  then show ?thesis using assms
    by (simp add: CookieUtils_get_def bnd_def document_cookie_read_def cookie_loop_eq ret_def
        read_value_def read_state_def)
next
  case None
  show ?thesis
  proof (cases "getItem_raises s")
    case True
    then show ?thesis using None assms
      by (simp add: CookieUtils_get_def bnd_def document_cookie_read_def cookie_loop_eq ret_def
          read_value_def read_state_def try_catch_def localStorage_getItem_def console_log_def
          mirror_def fallback_read_def fallback_warns_def)
  next
    case False
    then show ?thesis using None assms
      by (simp add: CookieUtils_get_def bnd_def document_cookie_read_def cookie_loop_eq ret_def
          read_value_def read_state_def try_catch_def localStorage_getItem_def console_log_def
          mirror_def fallback_read_def fallback_warns_def of_result_def
          split: option.splits stored_text.splits)
  qed
qed

lemma CookieUtils_set_eq:
  "CookieUtils_set name v days s = Inr ((), set_state name v days s)"
  by (cases "cookie_mode s")
     (simp_all add: CookieUtils_set_def bnd_def try_catch_def document_cookie_assign_def
        localStorage_setItem_def console_log_def set_state_def)

lemma CookieUtils_remove_eq:
  "CookieUtils_remove name s = Inr ((), remove_state name s)"
  by (cases "cookie_mode s")
     (simp_all add: CookieUtils_remove_def bnd_def try_catch_def document_cookie_assign_def
        localStorage_removeItem_def ret_def remove_state_def)


lemma cookie_hit_jar_put:
  assumes "\<forall>c \<in> set ca. cookie_name c = name \<longrightarrow> cookie_domain c = None \<and> cookie_path c = ''/''"
  shows "cookie_hit name (jar_put name (Json v) ca) = Some v"
  using assms by (induction ca) (auto simp add: own_cookie_def)

lemma cookie_hit_jar_delete:
  assumes "\<forall>c \<in> set ca. cookie_name c = name \<longrightarrow> cookie_domain c = None \<and> cookie_path c = ''/''"
  shows "cookie_hit name (jar_delete name ca) = None"
  using assms by (induction ca) (auto simp add: own_cookie_def jar_delete_def)

lemma jar_delete_own:
  assumes "\<forall>c \<in> set ca. cookie_name c = name \<longrightarrow> cookie_domain c = None \<and> cookie_path c = ''/''"
  shows "\<forall>c \<in> set (jar_delete name ca). cookie_name c \<noteq> name"
  using assms by (auto simp add: own_cookie_def jar_delete_def)

lemma jar_delete_idem: "jar_delete name (jar_delete name ca) = jar_delete name ca"
  by (simp add: jar_delete_def)

lemma cookie_hit_no_name:
  "\<forall>c \<in> set ca. cookie_name c \<noteq> name \<Longrightarrow> cookie_hit name ca = None"
  by (induction ca) auto

lemma read_value_primary:
  "cookie_hit name (cookies s) = Some v \<Longrightarrow> read_value name s = v"
  by (simp add: read_value_def)

lemma json_norm_undefined [simp]: "(json_norm v = JUndefined) = (v = JUndefined)"
  by (cases v) simp_all

lemma json_norm_bool [simp]: "(json_norm v = JBool b) = (v = JBool b)"
  by (cases v) simp_all

lemma truthy_json_norm [simp]: "truthy (json_norm v) = truthy v"
  by (cases v) simp_all


lemma timers_read_state [simp]: "timers (read_state name s) = timers s"
  by (simp add: read_state_def)

lemma modals_read_state [simp]: "modals (read_state name s) = modals s"
  by (simp add: read_state_def)

lemma cookie_mode_read_state [simp]: "cookie_mode (read_state name s) = cookie_mode s"
  by (simp add: read_state_def)

lemma cookie_mode_set_state [simp]: "cookie_mode (set_state name v days s) = cookie_mode s"
  by (simp add: set_state_def)

section \<open>Lemmas on the consent functions\<close>

lemma getConsent_eq:
  "getConsent s = Inr (consent_value s, consent_state s)"
proof (cases "cookie_mode s = Raises")
  case True
  then show ?thesis
    by (simp add: getConsent_def bnd_def try_catch_def CookieUtils_get_raises console_log_def
        ret_def consent_value_def consent_state_def)
next
  case False
  then show ?thesis
    by (cases "read_value CONSENT_COOKIE_NAME s")
       (simp_all add: getConsent_def bnd_def try_catch_def CookieUtils_get_eq ret_def
          of_result_def passes_checks_def fld_def consent_value_def consent_state_def)
qed

lemma getConsent_total: "\<exists>consent s'. getConsent s = Inr (consent, s')"
  by (simp add: getConsent_eq)

lemma passes_checks_object:
  "passes_checks v \<Longrightarrow> \<exists>fs. v = JObj fs"
  by (cases v) (simp_all add: passes_checks_def fld_def)

lemma consent_value_cases:
  "consent_value s = JNull \<or> (\<exists>fs. consent_value s = JObj fs \<and> passes_checks (JObj fs))"
  using passes_checks_object [of "read_value CONSENT_COOKIE_NAME s"]
  by (auto simp add: consent_value_def)

lemma hasConsent_eq:
  "hasConsent s =
     Inr (if consent_value s = JNull then JBool False else fld (consent_value s) ''timestamp'',
          consent_state s)"
  using consent_value_cases [of s]
  by (auto simp add: hasConsent_def bnd_def getConsent_eq ret_def of_result_def fld_def)

lemma timers_consent_state [simp]: "timers (consent_state s) = timers s"
  by (simp add: consent_state_def)

lemma modals_consent_state [simp]: "modals (consent_state s) = modals s"
  by (simp add: consent_state_def)

lemma banners_consent_state [simp]: "banners (consent_state s) = banners s"
  by (simp add: consent_state_def read_state_def)

lemma dispatched_consent_state [simp]: "dispatched (consent_state s) = dispatched s"
  by (simp add: consent_state_def read_state_def)

lemma hasConsent_total:
  "\<exists>h s1. hasConsent s = Inr (h, s1) \<and> timers s1 = timers s \<and> modals s1 = modals s"
  by (simp add: hasConsent_eq)

lemma isCategoryAllowed_eq:
  "isCategoryAllowed category s =
     Inr (if consent_value s = JNull then False
          else if category = ''necessary'' then True
          else fld (consent_value s) category = JBool True,
          consent_state s)"
  using consent_value_cases [of s]
  by (auto simp add: isCategoryAllowed_def bnd_def getConsent_eq ret_def of_result_def fld_def)

lemma loadScripts_eq:
  "loadScripts s =
     Inr ((), (consent_state s)
        \<lparr>dispatched := dispatched s
           @ (if consent_value s = JNull then [] else broadcast (consent_value s))\<rparr>)"
  using consent_value_cases [of s]
  by (auto simp add: loadScripts_def bnd_def getConsent_eq ret_def of_result_def fld_def
      js_if_def dispatchEvent_def broadcast_def)

lemma loadScripts_with_consent:
  assumes "getConsent s = Inr (consent, s1)" and "consent \<noteq> JNull"
  shows "loadScripts s = Inr ((), s1\<lparr>dispatched := dispatched s @ broadcast consent\<rparr>)"
  using assms by (auto simp add: getConsent_eq loadScripts_eq)

lemma saveConsent_eq:
  assumes "cookie_mode s \<noteq> Raises"
  shows "saveConsent (JObj fs) s =
     Inr (consent_record (fld (JObj fs) ''analytics'') (fld (JObj fs) ''marketing'') s,
          save_state (consent_record (fld (JObj fs) ''analytics'') (fld (JObj fs) ''marketing'') s) s)"
  using assms
  by (cases "read_value CONSENT_COOKIE_NAME
        (set_state CONSENT_COOKIE_NAME
           (consent_record (fld (JObj fs) ''analytics'') (fld (JObj fs) ''marketing'') s)
           CONSENT_EXPIRY_DAYS s)")
     (simp_all add: saveConsent_def bnd_def toISOString_now_def of_result_def fld_def
        CookieUtils_set_eq CookieUtils_get_eq consent_record_def save_state_def Let_def
        js_if_def console_log_def ret_def)

lemma saveConsent_raises:
  assumes "cookie_mode s = Raises"
  shows "saveConsent (JObj fs) s =
     Inl (SecurityError,
          set_state CONSENT_COOKIE_NAME
            (consent_record (fld (JObj fs) ''analytics'') (fld (JObj fs) ''marketing'') s)
            CONSENT_EXPIRY_DAYS s)"
  using assms
  by (simp add: saveConsent_def bnd_def toISOString_now_def of_result_def fld_def
      CookieUtils_set_eq CookieUtils_get_raises consent_record_def Let_def)

lemma js_or_defined [simp]: "js_or a (JBool False) \<noteq> JUndefined"
  by (cases a) (simp_all add: js_or_def)

lemma json_norm_consent_record:
  "json_norm (consent_record a m s) =
     JObj [(''version'', JStr CONSENT_VERSION),
           (''timestamp'', JStr (now s)),
           (''necessary'', JBool True),
           (''analytics'', json_norm (js_or a (JBool False))),
           (''marketing'', json_norm (js_or m (JBool False)))]"
  by (simp add: consent_record_def)

lemma stringify_consent_record:
  "JSON_stringify (consent_record a m s) = Json (json_norm (consent_record a m s))"
  by (simp add: consent_record_def)

lemma passes_checks_consent_record:
  "passes_checks (json_norm (consent_record a m s))"
  by (simp add: json_norm_consent_record passes_checks_def fld_def)


lemma fld_consent_choice:
  "fld (consent_choice a m) ''analytics'' = JBool a"
  "fld (consent_choice a m) ''marketing'' = JBool m"
  by (simp_all add: consent_choice_def fld_def)

lemma saveConsent_choice_eq:
  assumes "cookie_mode s \<noteq> Raises"
  shows "saveConsent (consent_choice a m) s =
     Inr (consent_record (JBool a) (JBool m) s,
          save_state (consent_record (JBool a) (JBool m) s) s)"
  using saveConsent_eq [OF assms, of "[(''analytics'', JBool a), (''marketing'', JBool m)]"]
  by (simp add: fld_consent_choice [unfolded consent_choice_def] consent_choice_def)

lemma saveConsent_choice_raises:
  assumes "cookie_mode s = Raises"
  shows "saveConsent (consent_choice a m) s =
     Inl (SecurityError,
          set_state CONSENT_COOKIE_NAME (consent_record (JBool a) (JBool m) s)
            CONSENT_EXPIRY_DAYS s)"
  using saveConsent_raises [OF assms, of "[(''analytics'', JBool a), (''marketing'', JBool m)]"]
  by (simp add: fld_consent_choice [unfolded consent_choice_def] consent_choice_def)

lemma cookies_save_state:
  "cookies (save_state r s) = cookies (set_state CONSENT_COOKIE_NAME r CONSENT_EXPIRY_DAYS s)"
  by (simp add: save_state_def Let_def read_state_def)

lemma cookie_mode_save_state [simp]: "cookie_mode (save_state r s) = cookie_mode s"
  by (simp add: save_state_def Let_def)

lemma timers_save_state [simp]: "timers (save_state r s) = timers s"
  by (simp add: save_state_def Let_def set_state_def)

lemma modals_save_state [simp]: "modals (save_state r s) = modals s"
  by (simp add: save_state_def Let_def set_state_def)

lemma saveConsent_choice_total:
  assumes "cookie_mode s \<noteq> Raises"
  shows "\<exists>s1. saveConsent (consent_choice a m) s = Inr (consent_record (JBool a) (JBool m) s, s1)
     \<and> timers s1 = timers s \<and> modals s1 = modals s \<and> cookie_mode s1 = cookie_mode s"
  by (simp add: saveConsent_choice_eq [OF assms])

lemma consent_value_after_save_primary:
  assumes "cookie_mode s = Stores"
    and "\<forall>c \<in> set (cookies s). cookie_name c = CONSENT_COOKIE_NAME
           \<longrightarrow> cookie_domain c = None \<and> cookie_path c = ''/''"
  shows "consent_value (save_state (consent_record a m s) s) = json_norm (consent_record a m s)"
proof -
  have "cookie_hit CONSENT_COOKIE_NAME (cookies (save_state (consent_record a m s) s))
          = Some (json_norm (consent_record a m s))"
    using assms(1) cookie_hit_jar_put [OF assms(2)]
    by (simp add: cookies_save_state set_state_def stringify_consent_record
        CONSENT_EXPIRY_DAYS_def)
  then show ?thesis
    using assms(1)
    by (simp add: consent_value_def read_value_primary passes_checks_consent_record)
qed


lemma consent_value_nothing_stored:
  assumes "cookie_hit CONSENT_COOKIE_NAME (cookies s) = None"
    and "storage s CONSENT_COOKIE_NAME = None"
  shows "consent_value s = JNull"
  using assms
  by (simp add: consent_value_def read_value_def fallback_read_def passes_checks_def)

section \<open>Lemmas on the banner, the modal and the handlers\<close>

lemma showBanner_eq:
  "showBanner s =
     (if truthy (if consent_value s = JNull then JBool False
                 else fld (consent_value s) ''timestamp'')
      then Inr ((), consent_state s)
      else Inr ((), (consent_state s)
             \<lparr>banners := banners s @ [\<lparr>banner_id = next_id s, banner_visible = False\<rparr>],
              next_id := Suc (next_id s),
              timers := timers s @ [(100, BannerVisible (next_id s))]\<rparr>))"
  by (simp add: showBanner_def bnd_def hasConsent_eq ret_def setTimeout_def consent_state_def
      read_state_def)

lemma reset_total: "\<exists>s1. reset s = Inr ((), s1)"
  by (simp add: reset_def bnd_def CookieUtils_remove_eq showBanner_eq)

lemma hideModal_total: "\<exists>s1. hideModal s = Inr ((), s1) \<and> retries s1 = retries s"
  by (cases "modals s") (simp_all add: hideModal_def setTimeout_def retries_def)

lemma loadScripts_total: "\<exists>s1. loadScripts s = Inr ((), s1) \<and> retries s1 = retries s"
  by (simp add: loadScripts_eq retries_def)

lemma close_and_broadcast_total:
  "\<exists>s1. bnd hideModal (\<lambda>_. loadScripts) s = Inr ((), s1) \<and> retries s1 = retries s"
proof -
  obtain s1 where 1: "hideModal s = Inr ((), s1)" "retries s1 = retries s"
    using hideModal_total by blast
  obtain s2 where 2: "loadScripts s1 = Inr ((), s2)" "retries s2 = retries s1"
    using loadScripts_total by blast
  from 1 2 show ?thesis by (simp add: bnd_def)
qed

lemma retry_save_total:
  assumes "cookie_mode t \<noteq> Raises"
  shows "\<exists>t3. run_task (RetrySave a m) t = Inr ((), t3) \<and> retries t3 = retries t"
proof -
  obtain t1 where 1: "saveConsent (consent_choice a m) t
      = Inr (consent_record (JBool a) (JBool m) t, t1)" "timers t1 = timers t"
    using saveConsent_choice_total [OF assms] by blast
  obtain h t2 where 2: "hasConsent t1 = Inr (h, t2)" "timers t2 = timers t1"
    using hasConsent_total by blast
  have r: "retries t2 = retries t"
    using 1(2) 2(2) by (simp add: retries_def)
  show ?thesis
  proof (cases "truthy h")
    case True
    obtain t3 where "bnd hideModal (\<lambda>_. loadScripts) t2 = Inr ((), t3)" "retries t3 = retries t2"
      using close_and_broadcast_total by blast
    with True 1 2 r show ?thesis by (simp add: bnd_def)
  next
    case False
    with 1 2 r show ?thesis by (simp add: bnd_def ret_def)
  qed
qed

lemma handleSave_total:
  assumes "modals s \<noteq> []" and "cookie_mode s \<noteq> Raises"
  shows "\<exists>s3. handleSave s = Inr ((), s3)"
proof -
  obtain box rest where m: "modals s = box # rest"
    using assms(1) by (cases "modals s") simp_all
  obtain s1 where 1: "saveConsent (consent_choice (analytics_checked box) (marketing_checked box)) s
      = Inr (consent_record (JBool (analytics_checked box)) (JBool (marketing_checked box)) s, s1)"
    using saveConsent_choice_total [OF assms(2)] by blast
  obtain h s2 where 2: "hasConsent s1 = Inr (h, s2)"
    using hasConsent_total by blast
  obtain s3 where 3: "bnd hideModal (\<lambda>_. loadScripts) s2 = Inr ((), s3)"
    using close_and_broadcast_total by blast
  from m 1 2 3 show ?thesis
    by (simp add: handleSave_def bnd_def checked_def console_log_def setTimeout_def)
qed

section \<open>The claims\<close>

subsection \<open>C1: isCategoryAllowed\<close>

text \<open>
  C1 says that \<^verbatim>\<open>isCategoryAllowed('necessary')\<close> is true whatever is stored, also when
  no valid consent exists, and that for the other categories the function is false
  without consent and the stored boolean with it. The source tests
  \<^verbatim>\<open>if (!consent) return false\<close> before it looks at the category: on a first visit,
  with nothing stored, \<^verbatim>\<open>isCategoryAllowed('necessary')\<close> returns \<^verbatim>\<open>false\<close>.
\<close>

theorem necessary_refused_without_consent:
  "isCategoryAllowed ''necessary'' fresh_browser = Inr (False, fresh_browser)"
  by (simp add: isCategoryAllowed_eq consent_value_def consent_state_def read_value_def
      read_state_def fresh_browser_def fallback_read_def fallback_warns_def mirror_def
      passes_checks_def CONSENT_COOKIE_NAME_def)

text \<open>The rest of C1 holds: with a consent record the necessary category is allowed, and
  any other category is allowed exactly when its stored value is \<^verbatim>\<open>true\<close>; without one
  nothing is.\<close>

lemma isCategoryAllowed_with_consent:
  assumes "getConsent s = Inr (consent, s')" and "consent \<noteq> JNull"
  shows "isCategoryAllowed ''necessary'' s = Inr (True, s')"
    and "category \<noteq> ''necessary'' \<Longrightarrow>
         isCategoryAllowed category s = Inr (fld consent category = JBool True, s')"
  using assms by (simp_all add: getConsent_eq isCategoryAllowed_eq)

lemma isCategoryAllowed_without_consent:
  assumes "getConsent s = Inr (JNull, s')"
  shows "isCategoryAllowed category s = Inr (False, s')"
  using assms by (simp add: getConsent_eq isCategoryAllowed_eq)

subsection \<open>C2: saving and reading back\<close>

text \<open>
  C2 says that where writes succeed, \<^verbatim>\<open>saveConsent({analytics:true, marketing:false})\<close>
  followed at once by \<^verbatim>\<open>getConsent()\<close> gives the saved record. The source writes its
  cookie on the path \<^verbatim>\<open>/\<close> and reads the first \<^verbatim>\<open>cookie_consent\<close> entry of
  \<^verbatim>\<open>document.cookie\<close>, which lists longer paths first. On a page under \<^verbatim>\<open>/shop\<close> where
  a \<^verbatim>\<open>cookie_consent\<close> cookie with a rejection was set on the path \<^verbatim>\<open>/shop\<close>, both
  writes take effect (the jar then holds both cookies), and \<^verbatim>\<open>getConsent()\<close> returns the
  rejection.
\<close>

theorem other_path_cookie_shadows_the_save:
  "\<exists>s1 s2.
     saveConsent (JObj [(''analytics'', JBool True), (''marketing'', JBool False)]) shadowed_browser =
       Inr (JObj [(''version'', JStr ''1.0''),
                  (''timestamp'', JStr ''2024-01-15T10:30:00.000Z''),
                  (''necessary'', JBool True),
                  (''analytics'', JBool True),
                  (''marketing'', JBool False)], s1)
   \<and> cookies s1 =
       [consent_cookie ''/shop'' reject_record,
        consent_cookie ''/''
          (JObj [(''version'', JStr ''1.0''),
                 (''timestamp'', JStr ''2024-01-15T10:30:00.000Z''),
                 (''necessary'', JBool True),
                 (''analytics'', JBool True),
                 (''marketing'', JBool False)])]
   \<and> getConsent s1 = Inr (reject_record, s2)
   \<and> get_prop reject_record ''analytics'' = Inr (JBool False)"
  by (simp add: saveConsent_eq getConsent_eq consent_value_def consent_state_def
      save_state_def Let_def set_state_def read_value_def read_state_def mirror_def
      passes_checks_def fld_def consent_record_def js_or_def own_cookie_def
      shadowed_browser_def fresh_browser_def consent_cookie_def reject_record_def
      CONSENT_VERSION_def CONSENT_EXPIRY_DAYS_def)

text \<open>
  C2 as amended: where both writes succeed and every \<^verbatim>\<open>cookie_consent\<close> cookie visible
  to the page is the widget's own (host-only, on the path \<^verbatim>\<open>/\<close>),
  \<^verbatim>\<open>saveConsent({analytics:true, marketing:false})\<close> followed at once by
  \<^verbatim>\<open>getConsent()\<close> gives a record with \<^verbatim>\<open>analytics:true\<close>, \<^verbatim>\<open>marketing:false\<close>,
  \<^verbatim>\<open>necessary:true\<close> and the configured version (and the timestamp of the save).
\<close>

theorem saveConsent_getConsent_roundtrip:
  assumes "cookie_mode s = Stores" and "\<not> setItem_raises s"
    and "\<forall>c \<in> set (cookies s). cookie_name c = CONSENT_COOKIE_NAME
           \<longrightarrow> cookie_domain c = None \<and> cookie_path c = ''/''"
  shows "\<exists>s1 s2.
           saveConsent (JObj [(''analytics'', JBool True), (''marketing'', JBool False)]) s =
             Inr (JObj [(''version'', JStr CONSENT_VERSION),
                        (''timestamp'', JStr (now s)),
                        (''necessary'', JBool True),
                        (''analytics'', JBool True),
                        (''marketing'', JBool False)], s1)
         \<and> getConsent s1 =
             Inr (JObj [(''version'', JStr CONSENT_VERSION),
                        (''timestamp'', JStr (now s)),
                        (''necessary'', JBool True),
                        (''analytics'', JBool True),
                        (''marketing'', JBool False)], s2)"
proof -
  let ?c = "JObj [(''analytics'', JBool True), (''marketing'', JBool False)]"
  let ?r = "consent_record (JBool True) (JBool False) s"
  have nr: "cookie_mode s \<noteq> Raises"
    using assms(1) by simp
  have f: "fld ?c ''analytics'' = JBool True" "fld ?c ''marketing'' = JBool False"
    by (simp_all add: fld_def)
  have r: "?r = JObj [(''version'', JStr CONSENT_VERSION), (''timestamp'', JStr (now s)),
       (''necessary'', JBool True), (''analytics'', JBool True), (''marketing'', JBool False)]"
    by (simp add: consent_record_def js_or_def)
  have n: "json_norm ?r = ?r"
    by (simp add: json_norm_consent_record js_or_def consent_record_def)
  have 1: "saveConsent ?c s = Inr (?r, save_state ?r s)"
    using saveConsent_eq [OF nr, of "[(''analytics'', JBool True), (''marketing'', JBool False)]"] f
    by simp
  have 2: "getConsent (save_state ?r s) = Inr (?r, consent_state (save_state ?r s))"
    using consent_value_after_save_primary [OF assms(1) assms(3), of "JBool True" "JBool False"] n
    by (simp add: getConsent_eq)
  from 1 2 r show ?thesis by metis
qed

theorem saveConsent_getConsent_roundtrip_witness:
  "\<exists>s1 s2.
     saveConsent (JObj [(''analytics'', JBool True), (''marketing'', JBool False)]) fresh_browser =
       Inr (JObj [(''version'', JStr ''1.0''),
                  (''timestamp'', JStr ''2024-01-15T10:30:00.000Z''),
                  (''necessary'', JBool True),
                  (''analytics'', JBool True),
                  (''marketing'', JBool False)], s1)
   \<and> getConsent s1 =
       Inr (JObj [(''version'', JStr ''1.0''),
                  (''timestamp'', JStr ''2024-01-15T10:30:00.000Z''),
                  (''necessary'', JBool True),
                  (''analytics'', JBool True),
                  (''marketing'', JBool False)], s2)"
  using saveConsent_getConsent_roundtrip [of fresh_browser]
  by (simp add: fresh_browser_def CONSENT_VERSION_def)

subsection \<open>C3: what getConsent accepts\<close>

lemma getConsent_other_version:
  assumes "CookieUtils_get CONSENT_COOKIE_NAME s = Inr (stored, s')"
    and "fld stored ''version'' \<noteq> JStr CONSENT_VERSION"
    and "truthy (fld stored ''version'')"
  shows "getConsent s = Inr (JNull, s')" and "hasConsent s = Inr (JBool False, s')"
proof -
  have nr: "cookie_mode s \<noteq> Raises"
    using assms(1) by (auto simp add: CookieUtils_get_raises)
  show "getConsent s = Inr (JNull, s')" and "hasConsent s = Inr (JBool False, s')"
    using assms nr
    by (simp_all add: CookieUtils_get_eq getConsent_eq hasConsent_eq consent_value_def
        consent_state_def passes_checks_def)
qed

lemma getConsent_missing_field:
  assumes "CookieUtils_get CONSENT_COOKIE_NAME s = Inr (stored, s')"
    and "fld stored ''necessary'' = JUndefined \<or> fld stored ''analytics'' = JUndefined
         \<or> fld stored ''marketing'' = JUndefined"
  shows "getConsent s = Inr (JNull, s')" and "hasConsent s = Inr (JBool False, s')"
proof -
  have nr: "cookie_mode s \<noteq> Raises"
    using assms(1) by (auto simp add: CookieUtils_get_raises)
  show "getConsent s = Inr (JNull, s')" and "hasConsent s = Inr (JBool False, s')"
    using assms nr
    by (auto simp add: CookieUtils_get_eq getConsent_eq hasConsent_eq consent_value_def
        consent_state_def passes_checks_def)
qed

text \<open>
  C3 says that \<^verbatim>\<open>getConsent()\<close> never throws and returns \<^verbatim>\<open>null\<close> when nothing is
  stored or the stored record is invalid, a record being valid only if its version is the
  configured one or the version field is absent, and the three category fields are
  present. The lemmas above prove that much: no exception, \<^verbatim>\<open>null\<close> for another
  (truthy) version and for a missing field. But the source tests \<^verbatim>\<open>!stored.version\<close>,
  under the comment "if version doesn't exist", and that holds for every falsy version:
  a stored record whose version is the empty text is returned as valid consent.
\<close>

theorem blank_version_accepted:
  "\<exists>s1 s2. getConsent blank_version_browser = Inr (blank_version_record, s1)
      \<and> hasConsent blank_version_browser = Inr (JStr ''2023-06-01T08:00:00.000Z'', s2)"
  by (simp add: getConsent_eq hasConsent_eq consent_value_def read_value_def
      blank_version_browser_def blank_version_record_def fresh_browser_def consent_cookie_def
      passes_checks_def fld_def CONSENT_VERSION_def)

subsection \<open>C4: verification and retry\<close>

text \<open>
  C4 says that \<^verbatim>\<open>saveConsent\<close> writes the record, re-reads it to verify, that when the
  verification fails the write is retried exactly once after a short delay, and that no
  error is surfaced to the caller. The source's \<^verbatim>\<open>saveConsent\<close> only warns on the
  console when its re-read fails: on a browser that takes no write it returns with no
  timer pending. The retry is the click handlers', on a test of their own
  (\<^verbatim>\<open>hasConsent()\<close>), and the two tests differ: with a record in \<^verbatim>\<open>localStorage\<close> that has
  no version, \<^verbatim>\<open>saveConsent\<close>'s re-read fails (it warns), yet \<^verbatim>\<open>handleSave\<close> finds
  \<^verbatim>\<open>hasConsent()\<close> true, schedules no retry, closes the modal and broadcasts the older
  record. And \<^verbatim>\<open>saveConsent\<close> calls \<^verbatim>\<open>CookieUtils.get\<close> outside any \<^verbatim>\<open>try\<close>: where the read
  of \<^verbatim>\<open>document.cookie\<close> throws, the SecurityError leaves \<^verbatim>\<open>saveConsent\<close> and
  \<^verbatim>\<open>handleSave\<close>, after the backup was written.
\<close>

theorem unverified_save_is_not_retried:
  "(\<exists>r s1. saveConsent (consent_choice True False) blocked_browser = Inr (r, s1)
      \<and> console s1 =
          [''Error setting localStorage:'', ''Cookie consent may not have been saved correctly'']
      \<and> timers s1 = [])
   \<and> (\<exists>r s1 s2. saveConsent (consent_choice True False) legacy_browser = Inr (r, s1)
      \<and> console s1 =
          [''Error setting localStorage:'', ''Cookie consent may not have been saved correctly'']
      \<and> handleSave legacy_browser = Inr ((), s2)
      \<and> timers s2 = [(300, ModalRemove 0)]
      \<and> retries s2 = []
      \<and> dispatched s2 = [(''cookieConsent:necessary'', legacy_record)])
   \<and> (\<exists>s1 s2. saveConsent (consent_choice True False) cookie_throwing_browser
                 = Inl (SecurityError, s1)
      \<and> handleSave cookie_throwing_browser = Inl (SecurityError, s2)
      \<and> console s2 = [''Error setting cookie:'']
      \<and> timers s2 = [])"
proof -
  have 1: "\<exists>r s1. saveConsent (consent_choice True False) blocked_browser = Inr (r, s1)
      \<and> console s1 =
          [''Error setting localStorage:'', ''Cookie consent may not have been saved correctly'']
      \<and> timers s1 = []"
    by (simp add: saveConsent_choice_eq save_state_def Let_def set_state_def read_value_def
        read_state_def fallback_read_def fallback_warns_def mirror_def
        blocked_browser_def fresh_browser_def)
  have 2: "\<exists>r s1 s2. saveConsent (consent_choice True False) legacy_browser = Inr (r, s1)
      \<and> console s1 =
          [''Error setting localStorage:'', ''Cookie consent may not have been saved correctly'']
      \<and> handleSave legacy_browser = Inr ((), s2)
      \<and> timers s2 = [(300, ModalRemove 0)]
      \<and> retries s2 = []
      \<and> dispatched s2 = [(''cookieConsent:necessary'', legacy_record)]"
    by (simp add: handleSave_def bnd_def checked_def saveConsent_choice_eq hasConsent_eq
        loadScripts_eq hideModal_def setTimeout_def retries_def broadcast_def
        save_state_def Let_def set_state_def read_value_def consent_value_def
        consent_state_def passes_checks_def
        read_state_def fallback_read_def fallback_warns_def mirror_def fld_def
        legacy_browser_def legacy_record_def blocked_browser_def fresh_browser_def)
  have 3: "\<exists>s1 s2. saveConsent (consent_choice True False) cookie_throwing_browser
                 = Inl (SecurityError, s1)
      \<and> handleSave cookie_throwing_browser = Inl (SecurityError, s2)
      \<and> console s2 = [''Error setting cookie:'']
      \<and> timers s2 = []"
    by (simp add: handleSave_def bnd_def checked_def saveConsent_choice_raises
        set_state_def cookie_throwing_browser_def fresh_browser_def)
  from 1 2 3 show ?thesis by blast
qed

text \<open>
  C4 as amended, for a browser where \<^verbatim>\<open>document.cookie\<close> can be read. \<^verbatim>\<open>saveConsent\<close>
  writes the record through \<^verbatim>\<open>CookieUtils.set\<close> once, reads it back through
  \<^verbatim>\<open>CookieUtils.get\<close>, warns on the console when what it reads is falsy or has another
  version, schedules nothing and returns the record. The retry is \<^verbatim>\<open>handleSave\<close>'s:
  when \<^verbatim>\<open>hasConsent()\<close> is falsy after \<^verbatim>\<open>saveConsent\<close>, it logs
  \<^verbatim>\<open>Failed to save consent\<close> and schedules one callback 100 ms later, and nothing
  else. The callback calls \<^verbatim>\<open>saveConsent\<close> once more; when \<^verbatim>\<open>hasConsent()\<close> is still
  falsy it does nothing further (no timer, the modal as it was); it never schedules a
  retry and does not throw, and with the modal attached \<^verbatim>\<open>handleSave\<close> does not throw.
\<close>

theorem save_verify_and_retry:
  "(cookie_mode s \<noteq> Raises \<longrightarrow>
      (\<exists>s0 saved s0a s1.
          CookieUtils_set CONSENT_COOKIE_NAME (consent_record (JBool a) (JBool m) s)
            CONSENT_EXPIRY_DAYS s = Inr ((), s0)
        \<and> CookieUtils_get CONSENT_COOKIE_NAME s0 = Inr (saved, s0a)
        \<and> saveConsent (consent_choice a m) s = Inr (consent_record (JBool a) (JBool m) s, s1)
        \<and> s1 = (if truthy saved \<and> fld saved ''version'' = JStr CONSENT_VERSION then s0a
                else s0a\<lparr>console := console s0a
                       @ [''Cookie consent may not have been saved correctly'']\<rparr>)
        \<and> timers s1 = timers s))
   \<and> (\<forall>box rest r s1 h s2.
        modals s = box # rest
        \<and> saveConsent (consent_choice (analytics_checked box) (marketing_checked box)) s
            = Inr (r, s1)
        \<and> hasConsent s1 = Inr (h, s2) \<and> \<not> truthy h
        \<longrightarrow> handleSave s =
              Inr ((), s2\<lparr>console := console s2 @ [''Failed to save consent''],
                          timers := timers s
                            @ [(100, RetrySave (analytics_checked box) (marketing_checked box))]\<rparr>))
   \<and> (\<forall>r t1 h t2.
        saveConsent (consent_choice a m) t = Inr (r, t1)
        \<and> hasConsent t1 = Inr (h, t2) \<and> \<not> truthy h
        \<longrightarrow> run_task (RetrySave a m) t = Inr ((), t2)
            \<and> timers t2 = timers t \<and> modals t2 = modals t)
   \<and> (cookie_mode t \<noteq> Raises \<longrightarrow>
        (\<exists>t3. run_task (RetrySave a m) t = Inr ((), t3) \<and> retries t3 = retries t))
   \<and> (modals s \<noteq> [] \<and> cookie_mode s \<noteq> Raises \<longrightarrow> (\<exists>s3. handleSave s = Inr ((), s3)))"
proof -
  have p1: "cookie_mode s \<noteq> Raises \<longrightarrow>
      (\<exists>s0 saved s0a s1.
          CookieUtils_set CONSENT_COOKIE_NAME (consent_record (JBool a) (JBool m) s)
            CONSENT_EXPIRY_DAYS s = Inr ((), s0)
        \<and> CookieUtils_get CONSENT_COOKIE_NAME s0 = Inr (saved, s0a)
        \<and> saveConsent (consent_choice a m) s = Inr (consent_record (JBool a) (JBool m) s, s1)
        \<and> s1 = (if truthy saved \<and> fld saved ''version'' = JStr CONSENT_VERSION then s0a
                else s0a\<lparr>console := console s0a
                       @ [''Cookie consent may not have been saved correctly'']\<rparr>)
        \<and> timers s1 = timers s)"
  proof
    assume nr: "cookie_mode s \<noteq> Raises"
    then show "\<exists>s0 saved s0a s1.
          CookieUtils_set CONSENT_COOKIE_NAME (consent_record (JBool a) (JBool m) s)
            CONSENT_EXPIRY_DAYS s = Inr ((), s0)
        \<and> CookieUtils_get CONSENT_COOKIE_NAME s0 = Inr (saved, s0a)
        \<and> saveConsent (consent_choice a m) s = Inr (consent_record (JBool a) (JBool m) s, s1)
        \<and> s1 = (if truthy saved \<and> fld saved ''version'' = JStr CONSENT_VERSION then s0a
                else s0a\<lparr>console := console s0a
                       @ [''Cookie consent may not have been saved correctly'']\<rparr>)
        \<and> timers s1 = timers s"
      by (simp add: CookieUtils_set_eq CookieUtils_get_eq saveConsent_choice_eq)
         (simp add: save_state_def Let_def set_state_def)
  qed
  have fr: "\<And>c u r u1. saveConsent c u = Inr (r, u1) \<Longrightarrow> c = consent_choice x y
      \<Longrightarrow> timers u1 = timers u \<and> modals u1 = modals u" for x y
  proof -
    fix c u r u1
    assume e: "saveConsent c u = Inr (r, u1)" and c: "c = consent_choice x y"
    have "cookie_mode u \<noteq> Raises"
      using e c by (auto simp add: saveConsent_choice_raises)
    with e c show "timers u1 = timers u \<and> modals u1 = modals u"
      by (auto simp add: saveConsent_choice_eq)
  qed
  have p2: "\<forall>box rest r s1 h s2.
        modals s = box # rest
        \<and> saveConsent (consent_choice (analytics_checked box) (marketing_checked box)) s
            = Inr (r, s1)
        \<and> hasConsent s1 = Inr (h, s2) \<and> \<not> truthy h
        \<longrightarrow> handleSave s =
              Inr ((), s2\<lparr>console := console s2 @ [''Failed to save consent''],
                          timers := timers s
                            @ [(100, RetrySave (analytics_checked box) (marketing_checked box))]\<rparr>)"
  proof (intro allI impI)
    fix box rest r s1 h s2
    assume h: "modals s = box # rest
        \<and> saveConsent (consent_choice (analytics_checked box) (marketing_checked box)) s
            = Inr (r, s1)
        \<and> hasConsent s1 = Inr (h, s2) \<and> \<not> truthy h"
    then have "timers s1 = timers s"
      using fr by blast
    moreover from h have "timers s2 = timers s1"
      by (auto simp add: hasConsent_eq)
    ultimately show "handleSave s =
              Inr ((), s2\<lparr>console := console s2 @ [''Failed to save consent''],
                          timers := timers s
                            @ [(100, RetrySave (analytics_checked box) (marketing_checked box))]\<rparr>)"
      using h by (simp add: handleSave_def bnd_def checked_def console_log_def setTimeout_def)
  qed
  have p3: "\<forall>r t1 h t2.
        saveConsent (consent_choice a m) t = Inr (r, t1)
        \<and> hasConsent t1 = Inr (h, t2) \<and> \<not> truthy h
        \<longrightarrow> run_task (RetrySave a m) t = Inr ((), t2)
            \<and> timers t2 = timers t \<and> modals t2 = modals t"
  proof (intro allI impI)
    fix r t1 h t2
    assume h: "saveConsent (consent_choice a m) t = Inr (r, t1)
        \<and> hasConsent t1 = Inr (h, t2) \<and> \<not> truthy h"
    then have "timers t1 = timers t \<and> modals t1 = modals t"
      using fr by blast
    moreover from h have "timers t2 = timers t1" "modals t2 = modals t1"
      by (auto simp add: hasConsent_eq)
    ultimately show "run_task (RetrySave a m) t = Inr ((), t2)
            \<and> timers t2 = timers t \<and> modals t2 = modals t"
      using h by (simp add: bnd_def ret_def)
  qed
  have p4: "cookie_mode t \<noteq> Raises \<longrightarrow>
        (\<exists>t3. run_task (RetrySave a m) t = Inr ((), t3) \<and> retries t3 = retries t)"
    using retry_save_total by blast
  have p5: "modals s \<noteq> [] \<and> cookie_mode s \<noteq> Raises \<longrightarrow> (\<exists>s3. handleSave s = Inr ((), s3))"
    using handleSave_total by blast
  show ?thesis
    by (intro conjI p1 p2 p3 p4 p5)
qed

lemma blocked_save_fails:
  assumes "cookies s = []" and "cookie_mode s = Ignores" and "setItem_raises s"
    and "storage s = (\<lambda>k. None)"
  shows "consent_value (save_state r s) = JNull"
    and "cookies (consent_state (save_state r s)) = []"
    and "cookie_mode (consent_state (save_state r s)) = Ignores"
    and "setItem_raises (consent_state (save_state r s))"
    and "storage (consent_state (save_state r s)) = (\<lambda>k. None)"
    and "dispatched (consent_state (save_state r s)) = dispatched s"
  using assms
  by (simp_all add: consent_value_def consent_state_def passes_checks_def read_value_def
      fallback_read_def save_state_def Let_def set_state_def read_state_def mirror_def)

theorem save_verify_and_retry_witness:
  "\<exists>s3 s4. handleSave blocked_browser = Inr ((), s3)
     \<and> timers s3 = [(100, RetrySave True False)]
     \<and> last (console s3) = ''Failed to save consent''
     \<and> run_task (RetrySave True False) s3 = Inr ((), s4)
     \<and> timers s4 = [(100, RetrySave True False)]
     \<and> modals s4 = modals blocked_browser
     \<and> dispatched s4 = []"
proof -
  let ?box = "\<lparr>modal_id = 0, modal_visible = True, aria_hidden = False,
                analytics_checked = True, marketing_checked = False\<rparr>"
  let ?r = "consent_record (JBool True) (JBool False) blocked_browser"
  let ?s1 = "save_state ?r blocked_browser"
  let ?s2 = "consent_state ?s1"
  let ?s3 = "?s2\<lparr>console := console ?s2 @ [''Failed to save consent''],
                 timers := timers blocked_browser @ [(100, RetrySave True False)]\<rparr>"
  let ?r3 = "consent_record (JBool True) (JBool False) ?s3"
  let ?t1 = "save_state ?r3 ?s3"
  let ?t2 = "consent_state ?t1"
  have b: "cookies blocked_browser = []" "cookie_mode blocked_browser = Ignores"
      "setItem_raises blocked_browser" "storage blocked_browser = (\<lambda>k. None)"
      "modals blocked_browser = [?box]" "timers blocked_browser = []"
      "dispatched blocked_browser = []"
    by (simp_all add: blocked_browser_def fresh_browser_def)
  note f1 = blocked_save_fails [OF b(1) b(2) b(3) b(4), of ?r]
  have a1: "saveConsent (consent_choice (analytics_checked ?box) (marketing_checked ?box))
      blocked_browser = Inr (?r, ?s1)"
    by (simp add: saveConsent_choice_eq b(2))
  have a2: "hasConsent ?s1 = Inr (JBool False, ?s2)"
    by (simp add: hasConsent_eq f1(1))
  have c: "cookies ?s3 = []" "cookie_mode ?s3 = Ignores" "setItem_raises ?s3"
      "storage ?s3 = (\<lambda>k. None)"
    using f1 by simp_all
  note f3 = blocked_save_fails [OF c, of ?r3]
  have a3: "saveConsent (consent_choice True False) ?s3 = Inr (?r3, ?t1)"
    by (rule saveConsent_choice_eq) (simp add: c(2))
  have a4: "hasConsent ?t1 = Inr (JBool False, ?t2)"
    by (simp add: hasConsent_eq f3(1))
  note inst = save_verify_and_retry [of blocked_browser True False ?s3]
  have H: "handleSave blocked_browser = Inr ((), ?s3)"
    using inst b(5) a1 a2 by simp
  have R: "run_task (RetrySave True False) ?s3 = Inr ((), ?t2)
      \<and> timers ?t2 = timers ?s3 \<and> modals ?t2 = modals ?s3"
    using inst a3 a4 by simp
  have "timers ?s3 = [(100, RetrySave True False)]"
    by (simp add: b(6))
  moreover have "last (console ?s3) = ''Failed to save consent''"
    by simp
  moreover have "modals ?s3 = modals blocked_browser"
    by simp
  moreover have "dispatched ?t2 = []"
    using f3(6) f1(6) b(7) by simp
  ultimately show ?thesis
    using H R by (intro exI [of _ ?s3] exI [of _ ?t2]) simp
qed

text \<open>The other two handlers retry in the same way, and so do their callbacks.\<close>

lemma handleAcceptAll_retry:
  assumes "saveConsent (consent_choice True True) s = Inr (r, s1)"
    and "hasConsent s1 = Inr (h, s2)" and "\<not> truthy h"
  shows "handleAcceptAll s =
     Inr ((), s2\<lparr>console := console s2 @ [''Failed to save consent''],
                 timers := timers s2 @ [(100, RetryAcceptAll)]\<rparr>)"
    and "run_task RetryAcceptAll s = Inr ((), s2)"
  using assms
  by (simp_all add: handleAcceptAll_def bnd_def console_log_def setTimeout_def ret_def)

lemma handleReject_retry:
  assumes "saveConsent (consent_choice False False) s = Inr (r, s1)"
    and "hasConsent s1 = Inr (h, s2)" and "\<not> truthy h"
  shows "handleReject s =
     Inr ((), s2\<lparr>console := console s2 @ [''Failed to save consent''],
                 timers := timers s2 @ [(100, RetryReject)]\<rparr>)"
    and "run_task RetryReject s = Inr ((), s2)"
  using assms
  by (simp_all add: handleReject_def bnd_def console_log_def setTimeout_def ret_def)

subsection \<open>C5: writing to the two stores\<close>




subsection \<open>C6: reading from the two stores\<close>

text \<open>
  C6 says that \<^verbatim>\<open>CookieUtils.get\<close> tries the cookie first, mirrors and returns it when
  it parses, falls back to \<^verbatim>\<open>localStorage\<close> otherwise, treats malformed entries in
  either store as absence with a logged warning, and never raises. The source reads
  \<^verbatim>\<open>document.cookie\<close> before any \<^verbatim>\<open>try\<close>: where that read throws, the SecurityError
  leaves \<^verbatim>\<open>CookieUtils.get\<close>. And a backup that is the empty text fails the test
  \<^verbatim>\<open>if (stored)\<close>: it is treated as absence with nothing logged.
\<close>

theorem read_raises_or_skips_silently:
  "CookieUtils_get CONSENT_COOKIE_NAME cookie_throwing_browser
     = Inl (SecurityError, cookie_throwing_browser)
   \<and> storage empty_backup_browser CONSENT_COOKIE_NAME = Some (Malformed [])
   \<and> CookieUtils_get CONSENT_COOKIE_NAME empty_backup_browser = Inr (JNull, empty_backup_browser)
   \<and> console empty_backup_browser = []"
  by (simp add: CookieUtils_get_raises CookieUtils_get_eq read_value_def read_state_def
      fallback_read_def fallback_warns_def mirror_def
      cookie_throwing_browser_def empty_backup_browser_def fresh_browser_def)

text \<open>
  C6 as amended, for a browser where \<^verbatim>\<open>document.cookie\<close> can be read:
  \<^verbatim>\<open>CookieUtils.get\<close> returns. When a cookie of that name parses (the first that does,
  \<open>cookie_hit\<close>), its value is returned and, unless \<^verbatim>\<open>setItem\<close> throws, the backup
  holds it afterwards. When none does, the result is what the backup parses to, or
  \<^verbatim>\<open>null\<close> when the backup is missing, unreadable or malformed. Each cookie that failed
  to parse left a warning on the console, and so did a backup that could not be read or
  that failed to parse, unless it is the empty text.
\<close>

theorem CookieUtils_get_contract:
  "(cookie_mode s \<noteq> Raises \<longrightarrow> (\<exists>v s1. CookieUtils_get name s = Inr (v, s1)))
   \<and> (\<forall>v. cookie_mode s \<noteq> Raises \<and> cookie_hit name (cookies s) = Some v \<longrightarrow>
         (\<exists>s1. CookieUtils_get name s = Inr (v, s1)
            \<and> storage s1 =
                (if setItem_raises s then storage s else (storage s)(name \<mapsto> JSON_stringify v))
            \<and> console s1 =
                console s @ replicate (cookie_misses name (cookies s)) ''Error parsing cookie:''))
   \<and> (cookie_mode s \<noteq> Raises \<and> cookie_hit name (cookies s) = None \<longrightarrow>
         (\<exists>s1. CookieUtils_get name s =
              Inr (if getItem_raises s then JNull
                   else case storage s name of
                          Some (Json v) \<Rightarrow> v
                        | Some (Malformed t) \<Rightarrow> JNull
                        | None \<Rightarrow> JNull, s1)
            \<and> storage s1 = storage s
            \<and> console s1 =
                console s @ replicate (cookie_misses name (cookies s)) ''Error parsing cookie:''
                  @ (if getItem_raises s then [''Error reading localStorage:'']
                     else case storage s name of
                            Some (Malformed t) \<Rightarrow>
                              if t \<noteq> [] then [''Error reading localStorage:''] else []
                          | Some (Json v) \<Rightarrow> []
                          | None \<Rightarrow> [])))"
proof (intro conjI allI impI)
  assume "cookie_mode s \<noteq> Raises"
  then show "\<exists>v s1. CookieUtils_get name s = Inr (v, s1)"
    by (simp add: CookieUtils_get_eq)
next
  fix v
  assume "cookie_mode s \<noteq> Raises \<and> cookie_hit name (cookies s) = Some v"
  then show "\<exists>s1. CookieUtils_get name s = Inr (v, s1)
            \<and> storage s1 =
                (if setItem_raises s then storage s else (storage s)(name \<mapsto> JSON_stringify v))
            \<and> console s1 =
                console s @ replicate (cookie_misses name (cookies s)) ''Error parsing cookie:''"
    by (simp add: CookieUtils_get_eq read_value_def read_state_def mirror_def)
next
  assume "cookie_mode s \<noteq> Raises \<and> cookie_hit name (cookies s) = None"
  then show "\<exists>s1. CookieUtils_get name s =
              Inr (if getItem_raises s then JNull
                   else case storage s name of
                          Some (Json v) \<Rightarrow> v
                        | Some (Malformed t) \<Rightarrow> JNull
                        | None \<Rightarrow> JNull, s1)
            \<and> storage s1 = storage s
            \<and> console s1 =
                console s @ replicate (cookie_misses name (cookies s)) ''Error parsing cookie:''
                  @ (if getItem_raises s then [''Error reading localStorage:'']
                     else case storage s name of
                            Some (Malformed t) \<Rightarrow>
                              if t \<noteq> [] then [''Error reading localStorage:''] else []
                          | Some (Json v) \<Rightarrow> []
                          | None \<Rightarrow> [])"
    by (simp add: CookieUtils_get_eq read_value_def read_state_def mirror_def fallback_read_def
        fallback_warns_def split: option.splits stored_text.splits)
qed

theorem CookieUtils_get_contract_witness:
  "(\<exists>s1. CookieUtils_get CONSENT_COOKIE_NAME mixed_jar_browser = Inr (reject_record, s1)
      \<and> storage s1 CONSENT_COOKIE_NAME = Some (Json reject_record)
      \<and> console s1 = [''Error parsing cookie:''])
   \<and> (\<exists>s1. CookieUtils_get CONSENT_COOKIE_NAME broken_backup_browser = Inr (JNull, s1)
      \<and> storage s1 = storage broken_backup_browser
      \<and> console s1 = [''Error reading localStorage:''])"
proof -
  have hit: "cookie_mode mixed_jar_browser \<noteq> Raises
      \<and> cookie_hit CONSENT_COOKIE_NAME (cookies mixed_jar_browser) = Some reject_record"
    by (simp add: mixed_jar_browser_def fresh_browser_def consent_cookie_def
        CONSENT_COOKIE_NAME_def)
  have miss: "cookie_mode broken_backup_browser \<noteq> Raises
      \<and> cookie_hit CONSENT_COOKIE_NAME (cookies broken_backup_browser) = None"
    by (simp add: broken_backup_browser_def fresh_browser_def)
  have 1: "\<exists>s1. CookieUtils_get CONSENT_COOKIE_NAME mixed_jar_browser = Inr (reject_record, s1)
      \<and> storage s1 CONSENT_COOKIE_NAME = Some (Json reject_record)
      \<and> console s1 = [''Error parsing cookie:'']"
    using CookieUtils_get_contract [of mixed_jar_browser CONSENT_COOKIE_NAME] hit
    by (auto simp add: mixed_jar_browser_def fresh_browser_def reject_record_def
        consent_cookie_def CONSENT_COOKIE_NAME_def)
  have 2: "\<exists>s1. CookieUtils_get CONSENT_COOKIE_NAME broken_backup_browser = Inr (JNull, s1)
      \<and> storage s1 = storage broken_backup_browser
      \<and> console s1 = [''Error reading localStorage:'']"
    using CookieUtils_get_contract [of broken_backup_browser CONSENT_COOKIE_NAME] miss
    by (auto simp add: broken_backup_browser_def fresh_browser_def)
  from 1 2 show ?thesis by blast
qed

subsection \<open>C7: the broadcast\<close>

text \<open>
  C7 says that announcing a valid record emits one signal for each optional category
  whose stored value is true, and none for one whose value is not true. The source tests
  \<^verbatim>\<open>if (consent.analytics)\<close>: a stored value that is truthy without being \<^verbatim>\<open>true\<close> fires
  the signal. Here the cookie holds \<^verbatim>\<open>analytics: 1\<close>.
\<close>

theorem numeric_value_is_broadcast:
  "\<exists>s1 s2. getConsent numeric_browser = Inr (numeric_record, s1)
     \<and> get_prop numeric_record ''analytics'' = Inr (JNum 1)
     \<and> loadScripts numeric_browser = Inr ((), s2)
     \<and> dispatched s2 =
         [(''cookieConsent:analytics'', numeric_record),
          (''cookieConsent:necessary'', numeric_record)]"
  by (simp add: getConsent_eq loadScripts_eq consent_value_def consent_state_def read_value_def
      read_state_def
      passes_checks_def fld_def broadcast_def numeric_browser_def numeric_record_def
      fresh_browser_def consent_cookie_def CONSENT_VERSION_def)

text \<open>
  C7 as amended: for every valid consent record (one that \<^verbatim>\<open>getConsent()\<close> returns),
  \<^verbatim>\<open>loadScripts\<close> adds to the dispatched events exactly one
  \<^verbatim>\<open>cookieConsent:analytics\<close> when the stored analytics value is truthy, exactly one
  \<^verbatim>\<open>cookieConsent:marketing\<close> when the stored marketing value is truthy, and always one
  \<^verbatim>\<open>cookieConsent:necessary\<close>, each with the whole record as its detail; a category
  whose value is falsy gets no signal. For a boolean value, truthy means \<^verbatim>\<open>true\<close>.
\<close>

theorem loadScripts_broadcast:
  assumes "getConsent s = Inr (consent, s1)" and "consent \<noteq> JNull"
  shows "\<exists>s2. loadScripts s = Inr ((), s2)
     \<and> dispatched s2 = dispatched s
          @ (if truthy (fld consent ''analytics'')
             then [(''cookieConsent:analytics'', consent)] else [])
          @ (if truthy (fld consent ''marketing'')
             then [(''cookieConsent:marketing'', consent)] else [])
          @ [(''cookieConsent:necessary'', consent)]"
  using loadScripts_with_consent [OF assms]
  by (simp add: broadcast_def)

theorem loadScripts_broadcast_witness:
  "\<exists>s2. loadScripts accepted_browser = Inr ((), s2)
     \<and> dispatched s2 =
          [(''cookieConsent:analytics'', accept_record),
           (''cookieConsent:marketing'', accept_record),
           (''cookieConsent:necessary'', accept_record)]"
proof -
  have g: "getConsent accepted_browser =
      Inr (accept_record, consent_state accepted_browser)"
    by (simp add: getConsent_eq consent_value_def read_value_def passes_checks_def fld_def
        accepted_browser_def accept_record_def fresh_browser_def consent_cookie_def
        CONSENT_VERSION_def)
  have n: "accept_record \<noteq> JNull"
    by (simp add: accept_record_def)
  show ?thesis
    using loadScripts_broadcast [OF g n]
    by (auto simp add: fld_def accept_record_def accepted_browser_def fresh_browser_def)
qed

subsection \<open>C8: reset\<close>

lemma consent_value_removed:
  assumes "cookie_mode s = Stores" and "\<not> removeItem_raises s"
    and "\<forall>c \<in> set (cookies s). cookie_name c = CONSENT_COOKIE_NAME
           \<longrightarrow> cookie_domain c = None \<and> cookie_path c = ''/''"
  shows "consent_value (remove_state CONSENT_COOKIE_NAME s) = JNull"
  using assms(1) assms(2) cookie_hit_jar_delete [OF assms(3)]
  by (simp add: consent_value_nothing_stored remove_state_def)

lemma reset_effective:
  assumes "cookie_mode s = Stores" and "\<not> removeItem_raises s"
    and "\<forall>c \<in> set (cookies s). cookie_name c = CONSENT_COOKIE_NAME
           \<longrightarrow> cookie_domain c = None \<and> cookie_path c = ''/''"
  shows "\<exists>s1. reset s = Inr ((), s1)
     \<and> cookie_mode s1 = Stores \<and> \<not> removeItem_raises s1
     \<and> cookies s1 = jar_delete CONSENT_COOKIE_NAME (cookies s)
     \<and> storage s1 = (storage s)(CONSENT_COOKIE_NAME := None)"
  using assms(1) assms(2) consent_value_removed [OF assms] cookie_hit_jar_delete [OF assms(3)]
  by (simp add: reset_def bnd_def CookieUtils_remove_eq showBanner_eq)
     (simp add: remove_state_def consent_state_def read_state_def mirror_def)

lemma no_consent_when_erased:
  assumes "\<forall>c \<in> set (cookies s). cookie_name c \<noteq> CONSENT_COOKIE_NAME"
    and "storage s = f(CONSENT_COOKIE_NAME := None)"
  shows "\<exists>sa sb. getConsent s = Inr (JNull, sa) \<and> hasConsent s = Inr (JBool False, sb)"
proof -
  have "consent_value s = JNull"
    using assms by (simp add: consent_value_nothing_stored cookie_hit_no_name)
  then show ?thesis
    by (simp add: getConsent_eq hasConsent_eq)
qed

text \<open>
  C8 says that \<^verbatim>\<open>reset()\<close> called twice in a row, erasing the record from both stores
  each time, leaves \<^verbatim>\<open>getConsent()\<close> returning \<^verbatim>\<open>null\<close> and \<^verbatim>\<open>hasConsent()\<close> false. The
  source expires the cookie on the path \<^verbatim>\<open>/\<close> only. On a page under \<^verbatim>\<open>/shop\<close> where
  the \<^verbatim>\<open>cookie_consent\<close> cookie was set on the path \<^verbatim>\<open>/shop\<close>, with every store
  working, \<^verbatim>\<open>reset()\<close> leaves that cookie in the jar, \<^verbatim>\<open>getConsent()\<close> still returns its
  record, and no banner is shown.
\<close>

theorem reset_leaves_other_path_cookie:
  "\<exists>s1 s2 s3. reset shadowed_browser = Inr ((), s1)
     \<and> cookies s1 = [consent_cookie ''/shop'' reject_record]
     \<and> banners s1 = []
     \<and> getConsent s1 = Inr (reject_record, s2)
     \<and> hasConsent s1 = Inr (JStr ''2023-06-01T08:00:00.000Z'', s3)"
  by (simp add: reset_def bnd_def CookieUtils_remove_eq showBanner_eq getConsent_eq
      hasConsent_eq consent_value_def consent_state_def remove_state_def read_value_def
      read_state_def mirror_def passes_checks_def fld_def jar_delete_def own_cookie_def
      shadowed_browser_def fresh_browser_def consent_cookie_def reject_record_def
      CONSENT_VERSION_def)

text \<open>
  C8 as amended: where erasing takes effect in both stores (the assignment to
  \<^verbatim>\<open>document.cookie\<close> is honoured and \<^verbatim>\<open>removeItem\<close> does not throw) and every
  \<^verbatim>\<open>cookie_consent\<close> cookie visible to the page is the widget's own (host-only, on the
  path \<^verbatim>\<open>/\<close>), \<^verbatim>\<open>reset()\<close> called twice in a row leaves \<^verbatim>\<open>getConsent()\<close> returning
  \<^verbatim>\<open>null\<close> and \<^verbatim>\<open>hasConsent()\<close> returning \<^verbatim>\<open>false\<close> after each call; the second call,
  which finds nothing to erase, returns as the first did and leaves both stores as they
  were. In any browser state \<^verbatim>\<open>CookieUtils.remove\<close> and \<^verbatim>\<open>reset()\<close> return without an
  exception.
\<close>

theorem reset_twice:
  assumes "cookie_mode s = Stores" and "\<not> removeItem_raises s"
    and "\<forall>c \<in> set (cookies s). cookie_name c = CONSENT_COOKIE_NAME
           \<longrightarrow> cookie_domain c = None \<and> cookie_path c = ''/''"
  shows "(\<exists>s1 s1a s1b s2 s2a s2b.
        reset s = Inr ((), s1)
      \<and> getConsent s1 = Inr (JNull, s1a) \<and> hasConsent s1 = Inr (JBool False, s1b)
      \<and> reset s1 = Inr ((), s2)
      \<and> getConsent s2 = Inr (JNull, s2a) \<and> hasConsent s2 = Inr (JBool False, s2b)
      \<and> cookies s2 = cookies s1 \<and> storage s2 = storage s1)
    \<and> (\<exists>t1. CookieUtils_remove CONSENT_COOKIE_NAME t = Inr ((), t1))
    \<and> (\<exists>t1. reset t = Inr ((), t1))"
proof -
  obtain s1 where s1: "reset s = Inr ((), s1)" "cookie_mode s1 = Stores" "\<not> removeItem_raises s1"
      "cookies s1 = jar_delete CONSENT_COOKIE_NAME (cookies s)"
      "storage s1 = (storage s)(CONSENT_COOKIE_NAME := None)"
    using reset_effective [OF assms] by blast
  have n1: "\<forall>c \<in> set (cookies s1). cookie_name c \<noteq> CONSENT_COOKIE_NAME"
    using jar_delete_own [OF assms(3)] s1(4) by simp
  then have o1: "\<forall>c \<in> set (cookies s1). cookie_name c = CONSENT_COOKIE_NAME
           \<longrightarrow> cookie_domain c = None \<and> cookie_path c = ''/''"
    by simp
  obtain s2 where s2: "reset s1 = Inr ((), s2)"
      "cookies s2 = jar_delete CONSENT_COOKIE_NAME (cookies s1)"
      "storage s2 = (storage s1)(CONSENT_COOKIE_NAME := None)"
    using reset_effective [OF s1(2) s1(3) o1] by blast
  have same: "cookies s2 = cookies s1" "storage s2 = storage s1"
    using s1(4) s1(5) s2(2) s2(3) by (simp_all add: jar_delete_idem)
  have n2: "\<forall>c \<in> set (cookies s2). cookie_name c \<noteq> CONSENT_COOKIE_NAME"
    using n1 same(1) by simp
  obtain s1a s1b where c1: "getConsent s1 = Inr (JNull, s1a)" "hasConsent s1 = Inr (JBool False, s1b)"
    using no_consent_when_erased [OF n1 s1(5)] by blast
  obtain s2a s2b where c2: "getConsent s2 = Inr (JNull, s2a)" "hasConsent s2 = Inr (JBool False, s2b)"
    using no_consent_when_erased [OF n2 s2(3)] by blast
  have "\<exists>t1. CookieUtils_remove CONSENT_COOKIE_NAME t = Inr ((), t1)"
    by (simp add: CookieUtils_remove_eq)
  moreover have "\<exists>t1. reset t = Inr ((), t1)"
    by (rule reset_total)
  ultimately show ?thesis
    using s1(1) s2(1) c1 c2 same by blast
qed

theorem reset_twice_witness:
  "(\<exists>s1 s1a s1b s2 s2a s2b.
        reset accepted_browser = Inr ((), s1)
      \<and> getConsent s1 = Inr (JNull, s1a) \<and> hasConsent s1 = Inr (JBool False, s1b)
      \<and> reset s1 = Inr ((), s2)
      \<and> getConsent s2 = Inr (JNull, s2a) \<and> hasConsent s2 = Inr (JBool False, s2b)
      \<and> cookies s2 = cookies s1 \<and> storage s2 = storage s1)
    \<and> (\<exists>t1. CookieUtils_remove CONSENT_COOKIE_NAME fresh_browser = Inr ((), t1))
    \<and> (\<exists>t1. reset fresh_browser = Inr ((), t1))
    \<and> (\<exists>s0. getConsent accepted_browser = Inr (accept_record, s0))"
proof -
  have g: "\<exists>s0. getConsent accepted_browser = Inr (accept_record, s0)"
    by (simp add: getConsent_eq consent_value_def read_value_def passes_checks_def fld_def
        accepted_browser_def accept_record_def fresh_browser_def consent_cookie_def
        CONSENT_VERSION_def)
  have h: "cookie_mode accepted_browser = Stores" "\<not> removeItem_raises accepted_browser"
      "\<forall>c \<in> set (cookies accepted_browser). cookie_name c = CONSENT_COOKIE_NAME
           \<longrightarrow> cookie_domain c = None \<and> cookie_path c = ''/''"
    by (simp_all add: accepted_browser_def fresh_browser_def consent_cookie_def)
  show ?thesis
    using reset_twice [OF h, of fresh_browser] g by blast
qed

subsection \<open>C9: the order of the broadcast\<close>

text \<open>
  C9: for every valid consent record the signals go out in one order:
  \<^verbatim>\<open>cookieConsent:analytics\<close> (when fired), then \<^verbatim>\<open>cookieConsent:marketing\<close> (when
  fired), then \<^verbatim>\<open>cookieConsent:necessary\<close>, which is always the last and, unless both
  others are absent, never the first.
\<close>

theorem loadScripts_order:
  assumes "getConsent s = Inr (consent, s1)" and "consent \<noteq> JNull"
  shows "\<exists>s2 fired. loadScripts s = Inr ((), s2)
     \<and> dispatched s2 = dispatched s @ fired
     \<and> map fst fired \<in> {[''cookieConsent:analytics'', ''cookieConsent:marketing'',
                           ''cookieConsent:necessary''],
                          [''cookieConsent:analytics'', ''cookieConsent:necessary''],
                          [''cookieConsent:marketing'', ''cookieConsent:necessary''],
                          [''cookieConsent:necessary'']}
     \<and> last fired = (''cookieConsent:necessary'', consent)
     \<and> last (dispatched s2) = (''cookieConsent:necessary'', consent)
     \<and> count_list (map fst fired) ''cookieConsent:necessary'' = 1"
proof -
  have "loadScripts s = Inr ((), s1\<lparr>dispatched := dispatched s @ broadcast consent\<rparr>)"
    by (rule loadScripts_with_consent [OF assms])
  moreover have "map fst (broadcast consent) \<in>
      {[''cookieConsent:analytics'', ''cookieConsent:marketing'', ''cookieConsent:necessary''],
       [''cookieConsent:analytics'', ''cookieConsent:necessary''],
       [''cookieConsent:marketing'', ''cookieConsent:necessary''],
       [''cookieConsent:necessary'']}"
    by (simp add: broadcast_def)
  moreover have "last (broadcast consent) = (''cookieConsent:necessary'', consent)"
    by (simp add: broadcast_def)
  moreover have "last (dispatched s @ broadcast consent) = (''cookieConsent:necessary'', consent)"
    by (simp add: broadcast_def)
  moreover have "count_list (map fst (broadcast consent)) ''cookieConsent:necessary'' = 1"
    by (simp add: broadcast_def)
  ultimately show ?thesis
    by (intro exI [of _ "s1\<lparr>dispatched := dispatched s @ broadcast consent\<rparr>"]
        exI [of _ "broadcast consent"]) simp
qed

theorem loadScripts_order_witness:
  "\<exists>s2. loadScripts accepted_browser = Inr ((), s2)
     \<and> map fst (dispatched s2) =
          [''cookieConsent:analytics'', ''cookieConsent:marketing'', ''cookieConsent:necessary'']
     \<and> last (dispatched s2) = (''cookieConsent:necessary'', accept_record)"
proof -
  have g: "getConsent accepted_browser =
      Inr (accept_record, consent_state accepted_browser)"
    by (simp add: getConsent_eq consent_value_def read_value_def passes_checks_def fld_def
        accepted_browser_def accept_record_def fresh_browser_def consent_cookie_def
        CONSENT_VERSION_def)
  have n: "accept_record \<noteq> JNull"
    by (simp add: accept_record_def)
  have e: "dispatched accepted_browser = []"
    by (simp add: accepted_browser_def fresh_browser_def)
  have l: "loadScripts accepted_browser =
      Inr ((), (consent_state accepted_browser)
        \<lparr>dispatched :=
           [(''cookieConsent:analytics'', accept_record),
            (''cookieConsent:marketing'', accept_record),
            (''cookieConsent:necessary'', accept_record)]\<rparr>)"
    by (simp add: loadScripts_with_consent [OF g n] e broadcast_def fld_def accept_record_def)
  from loadScripts_order [OF g n] l show ?thesis
    by auto
qed

subsection \<open>C10: truthy is not true\<close>

text \<open>
  C10: \<^verbatim>\<open>saveConsent\<close> stores \<^verbatim>\<open>consent.analytics || false\<close> as it is, without making it
  a boolean; \<^verbatim>\<open>loadScripts\<close> tests the stored value for truthiness and
  \<^verbatim>\<open>isCategoryAllowed\<close> compares it with \<^verbatim>\<open>true\<close>. So for every truthy analytics value
  other than \<^verbatim>\<open>true\<close> (the number 1, a non-empty text), after \<^verbatim>\<open>saveConsent\<close> on a
  browser that takes the cookie and shows no \<^verbatim>\<open>cookie_consent\<close> cookie but the widget's
  own, \<^verbatim>\<open>cookieConsent:analytics\<close> is dispatched and
  \<^verbatim>\<open>isCategoryAllowed('analytics')\<close> is \<^verbatim>\<open>false\<close>.
\<close>

theorem truthy_value_fires_but_is_not_allowed:
  assumes "cookie_mode s = Stores" and "truthy v" and "v \<noteq> JBool True"
    and "\<forall>c \<in> set (cookies s). cookie_name c = CONSENT_COOKIE_NAME
           \<longrightarrow> cookie_domain c = None \<and> cookie_path c = ''/''"
  shows "\<exists>consentData s1 stored s2 s3 s4.
       saveConsent (JObj [(''analytics'', v), (''marketing'', m)]) s = Inr (consentData, s1)
     \<and> get_prop consentData ''analytics'' = Inr v
     \<and> getConsent s1 = Inr (stored, s2)
     \<and> get_prop stored ''analytics'' = Inr (json_norm v)
     \<and> loadScripts s1 = Inr ((), s3)
     \<and> (''cookieConsent:analytics'', stored) \<in> set (dispatched s3)
     \<and> isCategoryAllowed ''analytics'' s1 = Inr (False, s4)"
proof -
  let ?c = "JObj [(''analytics'', v), (''marketing'', m)]"
  let ?r = "consent_record v m s"
  let ?s1 = "save_state ?r s"
  have f: "fld ?c ''analytics'' = v" "fld ?c ''marketing'' = m"
    by (simp_all add: fld_def)
  have nr: "cookie_mode s \<noteq> Raises"
    using assms(1) by simp
  have 1: "saveConsent ?c s = Inr (?r, ?s1)"
    using saveConsent_eq [OF nr, of "[(''analytics'', v), (''marketing'', m)]"] f by simp
  have 2: "get_prop ?r ''analytics'' = Inr v"
    using assms(2) by (simp add: consent_record_def js_or_def)
  have cv: "consent_value ?s1 = json_norm ?r"
    by (rule consent_value_after_save_primary [OF assms(1) assms(4)])
  have nn: "json_norm ?r \<noteq> JNull"
    by (simp add: json_norm_consent_record)
  have a: "fld (json_norm ?r) ''analytics'' = json_norm v"
    using assms(2) by (simp add: json_norm_consent_record fld_def js_or_def)
  have 3: "getConsent ?s1 = Inr (json_norm ?r, consent_state ?s1)"
    by (simp add: getConsent_eq cv)
  have 4: "get_prop (json_norm ?r) ''analytics'' = Inr (json_norm v)"
    using assms(2) by (simp add: json_norm_consent_record js_or_def)
  have 5: "loadScripts ?s1 =
      Inr ((), (consent_state ?s1)
         \<lparr>dispatched := dispatched ?s1 @ broadcast (json_norm ?r)\<rparr>)"
    using nn by (simp add: loadScripts_eq cv)
  have 6: "(''cookieConsent:analytics'', json_norm ?r) \<in> set (broadcast (json_norm ?r))"
    using assms(2) by (simp add: broadcast_def a)
  have 7: "isCategoryAllowed ''analytics'' ?s1 = Inr (False, consent_state ?s1)"
    using nn assms(3) by (simp add: isCategoryAllowed_eq cv a)
  from 6 have 8: "(''cookieConsent:analytics'', json_norm ?r)
      \<in> set (dispatched ((consent_state ?s1)
         \<lparr>dispatched := dispatched ?s1 @ broadcast (json_norm ?r)\<rparr>))"
    by simp
  from 1 2 3 4 5 8 7 show ?thesis by blast
qed

theorem truthy_value_fires_but_is_not_allowed_witness:
  "\<exists>consentData s1 stored s3 s4.
       saveConsent (JObj [(''analytics'', JNum 1), (''marketing'', JBool False)]) fresh_browser
         = Inr (consentData, s1)
     \<and> get_prop consentData ''analytics'' = Inr (JNum 1)
     \<and> loadScripts s1 = Inr ((), s3)
     \<and> (''cookieConsent:analytics'', stored) \<in> set (dispatched s3)
     \<and> isCategoryAllowed ''analytics'' s1 = Inr (False, s4)"
proof -
  have h: "cookie_mode fresh_browser = Stores" "truthy (JNum 1)" "JNum 1 \<noteq> JBool True"
      "\<forall>c \<in> set (cookies fresh_browser). cookie_name c = CONSENT_COOKIE_NAME
         \<longrightarrow> cookie_domain c = None \<and> cookie_path c = ''/''"
    by (simp_all add: fresh_browser_def)
  from truthy_value_fires_but_is_not_allowed [OF h, of "JBool False"] show ?thesis
    by blast
qed

end
